theory Spec2Isabelle
  imports Main
begin

section \<open>Data model\<close>

text \<open>
  The pipeline of \<^verbatim>\<open>app.py\<close> works on documents of one store collection and talks to three
  outside services: an HTTP source of images, a document-analysis (OCR) service and a chat
  completion service. Everything the Python code does to the outside is a field of
  \<open>world\<close>; everything the outside answers is a field of \<open>env\<close>.

  A page of \<^verbatim>\<open>ocr_output\<close> or \<^verbatim>\<open>json_data\<close> is a Python dict with string keys and string
  values, kept in insertion order: an association list. The stored lists of pages are optional
  fields of the document (\<open>None\<close> is an absent field).
\<close>

type_synonym page = "(string \<times> string) list"

text \<open>The value of a metadata call: Python's \<^verbatim>\<open>None\<close> or the value \<^verbatim>\<open>json.loads\<close> produced.\<close>

datatype 'j py = PyNone | PyJson 'j

record 'j document =
  doc_id :: nat
  status :: string
  image :: "string option"
  ocr_output :: "page list option"
  json_data :: "page list option"
  processed_date :: "string option"
  final_assignment :: "'j py option"
  final_release :: "'j py option"

text \<open>What the document-analysis service returns: pages, each with its number and lines.\<close>

record document_line =
  content :: string

record document_page =
  page_number :: int
  lines :: "document_line list"

text \<open>A chat message is a role and a content.\<close>

type_synonym message = "string \<times> string"

text \<open>
  The exceptions of the Python code that the model distinguishes. \<open>TransportFailure\<close> is
  a failed \<^verbatim>\<open>httpx.get\<close> or \<^verbatim>\<open>raise_for_status\<close>, \<open>OcrFailure\<close> a failed analysis,
  \<open>CompletionFailure\<close> a failed chat completion, \<open>NotFound\<close> the \<^verbatim>\<open>ValueError\<close> of
  \<^verbatim>\<open>get_metadata\<close>; the others are the built-in exceptions of the same name.
\<close>

datatype error =
  KeyError | IndexError | UnboundLocalError | FileNotFoundError
  | TransportFailure | OcrFailure | CompletionFailure | NotFound

text \<open>
  The answers of the outside. Each service is a function of the number of calls made to it
  before, so that a service can fail on one call and succeed on the next. \<open>None\<close> is a
  raised exception. \<open>json_loads\<close> is \<^verbatim>\<open>json.loads\<close> (\<open>None\<close>: \<^verbatim>\<open>JSONDecodeError\<close>),
  \<open>json_dumps\<close> is \<^verbatim>\<open>json.dumps(fields, indent=2)\<close>, \<open>temp_path\<close> is the path
  \<^verbatim>\<open>os.path.join(tempfile.gettempdir(), secure_filename(os.path.basename(url)))\<close>,
  \<open>utc_now\<close> the ISO-8601 rendering of the clock at its n-th reading.
\<close>

record 'j env =
  http_get :: "nat \<Rightarrow> string \<Rightarrow> string option"
  begin_analyze_document :: "nat \<Rightarrow> string \<Rightarrow> document_page list option"
  chat_completion :: "nat \<Rightarrow> message list \<Rightarrow> string option"
  json_loads :: "string \<Rightarrow> 'j option"
  json_dumps :: "(string \<times> string) list \<Rightarrow> string"
  temp_path :: "string \<Rightarrow> string"
  utc_now :: "nat \<Rightarrow> string"

text \<open>
  The state the code reads and writes: the collection (documents in store order, found and
  updated by \<open>doc_id\<close>), the local files, and one log per outside call. \<open>ocr_log\<close> lists the
  calls of \<^verbatim>\<open>analyze_document\<close>, \<open>meta_log\<close> the calls of \<^verbatim>\<open>get_metadata\<close> with the
  schema asked for, \<open>http_log\<close> the downloads, \<open>chat_log\<close> the completion requests,
  \<open>clock_reads\<close> the number of times the clock was read. Store operations and local file
  writes do not fail in this model.
\<close>

record 'j world =
  store :: "'j document list"
  files :: "string \<rightharpoonup> string"
  http_log :: "string list"
  ocr_log :: "string list"
  chat_log :: "message list list"
  meta_log :: "(nat \<times> (string \<times> string) list) list"
  clock_reads :: nat

section \<open>Store operations\<close>

text \<open>\<^verbatim>\<open>collection.find_one({"_id": i})\<close>: the first document with that id, if any.\<close>

definition find_one :: "nat \<Rightarrow> 'j document list \<Rightarrow> 'j document option" where
  "find_one i ds = find (\<lambda>d. doc_id d = i) ds"

text \<open>
  \<^verbatim>\<open>collection.update_one({"_id": i}, {"$set": ...})\<close>: the first document with that id is
  changed by \<open>f\<close>; with no such document nothing happens (there is no upsert).
\<close>

fun update_one :: "nat \<Rightarrow> ('j document \<Rightarrow> 'j document) \<Rightarrow> 'j document list \<Rightarrow> 'j document list" where
  "update_one i f [] = []"
| "update_one i f (d # ds) = (if doc_id d = i then f d # ds else d # update_one i f ds)"

definition set_status :: "nat \<Rightarrow> string \<Rightarrow> 'j world \<Rightarrow> 'j world" where
  "set_status i s w = w\<lparr>store := update_one i (\<lambda>d. d\<lparr>status := s\<rparr>) (store w)\<rparr>"

section \<open>Strings\<close>

text \<open>\<^verbatim>\<open>sep.join(xs)\<close>.\<close>

fun join :: "string \<Rightarrow> string list \<Rightarrow> string" where
  "join sep [] = []"
| "join sep [x] = x"
| "join sep (x # y # ys) = x @ sep @ join sep (y # ys)"

text \<open>\<^verbatim>\<open>str(n)\<close> for an integer: decimal digits, with a minus sign when negative.\<close>

definition digit_char :: "nat \<Rightarrow> char" where
  "digit_char d = ''0123456789'' ! d"

function str_nat :: "nat \<Rightarrow> string" where
  "str_nat n = (if n < 10 then [digit_char n] else str_nat (n div 10) @ [digit_char (n mod 10)])"
  by pat_completeness auto
termination
  by (relation "measure id") auto

definition str :: "int \<Rightarrow> string" where
  "str i = (if i < 0 then CHR ''-'' # str_nat (nat (- i)) else str_nat (nat i))"

text \<open>
  \<^verbatim>\<open>s.strip()\<close>: the whitespace of Python's \<^verbatim>\<open>str.isspace\<close> among the ASCII characters
  (tab, line feed, vertical tab, form feed, carriage return, the separators 0x1C to 0x1F and
  the space) is dropped at both ends.
\<close>

definition isspace :: "char \<Rightarrow> bool" where
  "isspace c = (of_char c \<in> set [9, 10, 11, 12, 13, 28, 29, 30, 31, 32 :: nat])"

definition strip :: "string \<Rightarrow> string" where
  "strip s = rev (dropWhile isspace (rev (dropWhile isspace s)))"

section \<open>OCR adapter\<close>

text \<open>
  \<^verbatim>\<open>analyze_document(document_path)\<close>: reads the file, sends it to the analysis service and
  returns one single-key dict per page. Any exception is printed and raised again.
\<close>

definition page_entry :: "document_page \<Rightarrow> page" where
  "page_entry p = [(str (page_number p - 1), join '' '' (map content (lines p)))]"

definition analyze_document :: "'j env \<Rightarrow> string \<Rightarrow> 'j world \<Rightarrow> (error + page list) \<times> 'j world" where
  "analyze_document env document_path w =
     (let w1 = w\<lparr>ocr_log := ocr_log w @ [document_path]\<rparr> in
      case files w document_path of
        None \<Rightarrow> (Inl FileNotFoundError, w1)
      | Some bytes \<Rightarrow>
          (case begin_analyze_document env (length (ocr_log w)) bytes of
             None \<Rightarrow> (Inl OcrFailure, w1)
           | Some pages \<Rightarrow> (Inr (map page_entry pages), w1)))"

section \<open>Completion service\<close>

text \<open>
  \<^verbatim>\<open>get_openai_response(messages)\<close>: one completion request; the content of the first choice,
  stripped. Any exception is printed and raised again.
\<close>

definition get_openai_response :: "'j env \<Rightarrow> message list \<Rightarrow> 'j world \<Rightarrow> (error + string) \<times> 'j world" where
  "get_openai_response env messages w =
     (let w1 = w\<lparr>chat_log := chat_log w @ [messages]\<rparr> in
      case chat_completion env (length (chat_log w)) messages of
        None \<Rightarrow> (Inl CompletionFailure, w1)
      | Some c \<Rightarrow> (Inr (strip c), w1))"

section \<open>Text correction\<close>

text \<open>\<^verbatim>\<open>list(page.values())[0]\<close> and \<^verbatim>\<open>list(page.keys())[0]\<close>: an empty dict raises.\<close>

definition first_value :: "page \<Rightarrow> error + string" where
  "first_value page = (case page of [] \<Rightarrow> Inl IndexError | kv # _ \<Rightarrow> Inr (snd kv))"

definition first_key :: "page \<Rightarrow> error + string" where
  "first_key page = (case page of [] \<Rightarrow> Inl IndexError | kv # _ \<Rightarrow> Inr (fst kv))"

definition correction_messages :: "string \<Rightarrow> message list" where
  "correction_messages page_content =
     [(''system'', ''You are a helpful assistant that fixes errors in OCR outputs and provides correct data in the same JSON format.''),
      (''user'', ''Fix the errors and get correct data in same JSON format:'' @ [CHR 0x0A] @ page_content)]"

text \<open>
  \<^verbatim>\<open>process_ocr_output(ocr_output)\<close>: one completion request per page, in order; the answer
  is stored under the first key of the page. The handler of the source catches
  \<^verbatim>\<open>json.JSONDecodeError\<close> only, which nothing in the body raises, so every exception
  leaves the function.
\<close>

fun process_ocr_output :: "'j env \<Rightarrow> page list \<Rightarrow> 'j world \<Rightarrow> (error + page list) \<times> 'j world" where
  "process_ocr_output env [] w = (Inr [], w)"
| "process_ocr_output env (page # rest) w =
     (case first_value page of
        Inl e \<Rightarrow> (Inl e, w)
      | Inr page_content \<Rightarrow>
          (case get_openai_response env (correction_messages page_content) w of
             (Inl e, w1) \<Rightarrow> (Inl e, w1)
           | (Inr response, w1) \<Rightarrow>
               (case first_key page of
                  Inl e \<Rightarrow> (Inl e, w1)
                | Inr k \<Rightarrow>
                    (case process_ocr_output env rest w1 of
                       (Inl e, w2) \<Rightarrow> (Inl e, w2)
                     | (Inr parts, w2) \<Rightarrow> (Inr ([(k, response)] # parts), w2)))))"

section \<open>Metadata extraction\<close>

fun first_values :: "page list \<Rightarrow> error + string list" where
  "first_values [] = Inr []"
| "first_values (page # rest) =
     (case first_value page of
        Inl e \<Rightarrow> Inl e
      | Inr v \<Rightarrow> (case first_values rest of Inl e \<Rightarrow> Inl e | Inr vs \<Rightarrow> Inr (v # vs)))"

definition metadata_messages :: "'j env \<Rightarrow> string \<Rightarrow> (string \<times> string) list \<Rightarrow> message list" where
  "metadata_messages env combined_content field_map =
     [(''system'', ''You are a helpful assistant that extracts specific information from document content.''),
      (''user'', ''Extract the following information from this content, filling in the values for each field:''
                 @ [CHR 0x0A] @ combined_content @ [CHR 0x0A, CHR 0x0A] @ ''Fields: '' @ json_dumps env field_map)]"

text \<open>
  \<^verbatim>\<open>get_metadata(object_id, collection, fields)\<close>, with \<open>field_map\<close> for
  \<^verbatim>\<open>fields\<close>. The ids of the collection are \<^verbatim>\<open>ObjectId\<close>s, so \<^verbatim>\<open>ObjectId(object_id)\<close>
  is the id itself. A missing document raises; a missing \<^verbatim>\<open>json_data\<close> field reads as the
  empty list; a completion that is not JSON is printed and the function falls off its end,
  returning \<^verbatim>\<open>None\<close>. Other exceptions leave the function.
\<close>

definition get_metadata :: "'j env \<Rightarrow> nat \<Rightarrow> (string \<times> string) list \<Rightarrow> 'j world \<Rightarrow> (error + 'j py) \<times> 'j world" where
  "get_metadata env object_id field_map w =
     (let w0 = w\<lparr>meta_log := meta_log w @ [(object_id, field_map)]\<rparr> in
      case find_one object_id (store w0) of
        None \<Rightarrow> (Inl NotFound, w0)
      | Some document \<Rightarrow>
          (case first_values (case json_data document of None \<Rightarrow> [] | Some pages \<Rightarrow> pages) of
             Inl e \<Rightarrow> (Inl e, w0)
           | Inr contents \<Rightarrow>
               (case get_openai_response env (metadata_messages env (join '' '' contents) field_map) w0 of
                  (Inl e, w1) \<Rightarrow> (Inl e, w1)
                | (Inr response, w1) \<Rightarrow>
                    (case json_loads env response of
                       None \<Rightarrow> (Inr PyNone, w1)
                     | Some j \<Rightarrow> (Inr (PyJson j), w1)))))"

definition final_assignment_fields :: "(string \<times> string) list" where
  "final_assignment_fields =
     [(''Record Type 'Z'' @ [CHR 0x27], []),
      (''Document Type (Must be populated with one of the valid codes)'', []),
      (''FIPS Code'', []),
      (''MERS Indicator (ASSIGNEE)'', []),
      (''RECORD ID M = MAIN Record (default value for all non-addendum records) A = APN Addendum; D= DOT Addendum'', []),
      (''Assignment Recording Date'', []),
      (''Assignment EFFECTIVE or CONTRACT Date.'', []),
      (''Assignment Document Number (also known as:  Reception No, Instrument No.)'', []),
      (''Assignment Book Number'', []),
      (''Assignment Page Number'', []),
      (''Multiple Page Image Flag'', []),
      (''LPS Image Identifier'', []),
      (''Original Deed of Trust ('DOT') Recording Date'', []),
      (''Original Deed of Trust ('DOT') Contract Date'', []),
      (''Original Deed of Trust('DOT') Document Number'', []),
      (''Original Deed of Trust ('DOT') Book Number'', []),
      (''Original Deed of Trust ('DOT') Page Number'', []),
      (''Original Beneficiary/Lender/Mortgagee/In Favor of/Made By'', []),
      (''Original Loan Amount'', []),
      (''Assignor Name(s) '', []),
      (''Loan Number'', []),
      (''Assignee(s) (Lender(s) receiving right, title & interest in the Deed of Trust or Mortgage)'', []),
      (''MERS (MIN) Number'', []),
      (''MERS NUMBER  PASS VALIDATION'', []),
      (''Assignee / Pool'', []),
      (''MSP Servicer Number and Loan Number'', []),
      (''Borrower Name(s)/Corporation(s)'', []),
      (''Assessor Parcel Number (APN, PIN, PID)'', []),
      (''Multiple APN Code'', []),
      (''Tax Acct ID'', []),
      (''Property: Full Street Address-  (Look for phrases such as `Commonly known as`)'', []),
      (''Property: Unit #'', []),
      (''Property: City Name'', []),
      (''Property: State'', []),
      (''Property: Zip'', []),
      (''Property: Zip + 4'', []),
      (''Data Entry Date'', []),
      (''Data Entry Operator Code'', []),
      (''Vendor Source Code'', [])]"

definition final_release_fields :: "(string \<times> string) list" where
  "final_release_fields =
     [(''Record Type'', []),
      (''Document Type (Must be populated with one of the valid codes)'', []),
      (''FIPS Code'', []),
      (''RECORD ID M = MAIN Record (default value for all non-addendum records); A = APN Addendum; D= DOT Addendum'', []),
      (''Release Recording Date'', []),
      (''Release Contract Date or Effective Date '', []),
      (''(Mortgage) Payoff Date (P.O. Date)'', []),
      (''Release Document Number (Instrument, Reception No)'', []),
      (''Release Book Number (Folio, Liber,Volume)'', []),
      (''Release Page Number'', []),
      (''Multiple Page Image Flag'', []),
      (''LPS Image Identifier'', []),
      (''Original Deed of Trust ('DOT') Recording Date'', []),
      (''Original Deed of Trust ('DOT') Contract Date'', []),
      (''Original Deed of Trust('DOT') Document Number'', []),
      (''Original Deed of Trust ('DOT') Book Number'', []),
      (''Original Deed of Trust ('DOT') Page Number'', []),
      (''Original Beneficiary/Lender/Mortgagee'', []),
      (''Original Loan Amount'', []),
      (''Loan Number'', []),
      (''Current Beneficiary/Lender/Mortgagee'', []),
      (''MERS (MIN) Number'', []),
      (''MERS NUMBER  PASS VALIDATION'', []),
      (''MSP Servicer Number and Loan Number'', []),
      (''Current Lender 'Pool'' @ [CHR 0x27], []),
      (''Borrower Name(s)/Corporation(s)'', []),
      (''Borrower Mail Full Street Address '', []),
      (''Borrower Mail Unit'', []),
      (''Borrower Mail City Name'', []),
      (''Borrower Mail State'', []),
      (''Borrower Mail Zip'', []),
      (''Borrower Mail Zip + 4'', []),
      (''Assessor Parcel Number (APN, PID, PIN)'', []),
      (''Multiple APN Code'', []),
      (''Tax Acct ID'', []),
      (''Property: Full Street Address-  (Look for phrases such as `Commonly known as`)'', []),
      (''Property: Unit #'', []),
      (''Property: City Name'', []),
      (''Property: State'', []),
      (''Property: Zip'', []),
      (''Property: Zip + 4'', []),
      (''Data Entry Date'', []),
      (''Data Entry Operator Code'', []),
      (''Vendor Source Code'', [])]"


definition get_metadata_for_final_assignment :: "'j env \<Rightarrow> nat \<Rightarrow> 'j world \<Rightarrow> (error + 'j py) \<times> 'j world" where
  "get_metadata_for_final_assignment env object_id w = get_metadata env object_id final_assignment_fields w"

definition get_metadata_for_final_release :: "'j env \<Rightarrow> nat \<Rightarrow> 'j world \<Rightarrow> (error + 'j py) \<times> 'j world" where
  "get_metadata_for_final_release env object_id w = get_metadata env object_id final_release_fields w"

section \<open>Document state machine\<close>

text \<open>
  How a block of \<^verbatim>\<open>process_document\<close> ends: with an exception, with \<^verbatim>\<open>return\<close>, or by
  falling through to the next statement.
\<close>

datatype flow = Raised error | Returned | Continue

definition store_results :: "nat \<Rightarrow> page list \<Rightarrow> page list \<Rightarrow> 'j world \<Rightarrow> 'j world" where
  "store_results i extracted_data processed_data w =
     w\<lparr>store := update_one i (\<lambda>d. d\<lparr>ocr_output := Some extracted_data, json_data := Some processed_data\<rparr>) (store w)\<rparr>"

text \<open>The branch of a document with OCR output (lines 101 to 103).\<close>

definition cached_branch :: "'j env \<Rightarrow> 'j document \<Rightarrow> page list \<Rightarrow> 'j world \<Rightarrow> flow \<times> 'j world" where
  "cached_branch env doc extracted_data w =
     (case process_ocr_output env extracted_data w of
        (Inl e, w1) \<Rightarrow> (Raised e, w1)
      | (Inr processed_data, w1) \<Rightarrow>
          (Continue, store_results (doc_id doc) extracted_data processed_data w1))"

text \<open>
  The \<^verbatim>\<open>try\<close> block of the OCR branch with its handler (lines 113 to 125): every exception
  of the analysis or of the correction marks the document failed and returns.
\<close>

definition ocr_try :: "'j env \<Rightarrow> 'j document \<Rightarrow> string \<Rightarrow> 'j world \<Rightarrow> flow \<times> 'j world" where
  "ocr_try env doc temp_file_path w =
     (case analyze_document env temp_file_path w of
        (Inl e, w1) \<Rightarrow> (Returned, set_status (doc_id doc) ''failed'' w1)
      | (Inr extracted_data, w1) \<Rightarrow>
          (if extracted_data = [] then (Returned, set_status (doc_id doc) ''failed'' w1)
           else
             (case process_ocr_output env extracted_data w1 of
                (Inl e, w2) \<Rightarrow> (Returned, set_status (doc_id doc) ''failed'' w2)
              | (Inr processed_data, w2) \<Rightarrow>
                  (Continue, store_results (doc_id doc) extracted_data processed_data w2))))"

text \<open>\<^verbatim>\<open>os.remove(path)\<close>: a missing file raises.\<close>

definition os_remove :: "string \<Rightarrow> 'j world \<Rightarrow> (error + unit) \<times> 'j world" where
  "os_remove path w =
     (case files w path of
        None \<Rightarrow> (Inl FileNotFoundError, w)
      | Some _ \<Rightarrow> (Inr (), w\<lparr>files := (files w)(path := None)\<rparr>))"

text \<open>
  The branch of a document without OCR output (lines 105 to 127): the image is downloaded to
  the temporary path, the \<^verbatim>\<open>try\<close> block runs, and the \<^verbatim>\<open>finally\<close> clause removes the
  file whatever the block did.
\<close>

definition ocr_branch :: "'j env \<Rightarrow> 'j document \<Rightarrow> 'j world \<Rightarrow> flow \<times> 'j world" where
  "ocr_branch env doc w =
     (case image doc of
        None \<Rightarrow> (Raised KeyError, w)
      | Some url \<Rightarrow>
          (let temp_file_path = temp_path env url;
               w1 = w\<lparr>http_log := http_log w @ [url]\<rparr>
           in case http_get env (length (http_log w)) url of
                None \<Rightarrow> (Raised TransportFailure, w1)
              | Some response_content \<Rightarrow>
                  (let w2 = w1\<lparr>files := (files w1)(temp_file_path \<mapsto> response_content)\<rparr>;
                       (fl, w3) = ocr_try env doc temp_file_path w2
                   in case os_remove temp_file_path w3 of
                        (Inl e, w4) \<Rightarrow> (Raised e, w4)
                      | (Inr _, w4) \<Rightarrow> (fl, w4))))"

text \<open>
  One metadata call with its single retry (lines 131 to 139 and 141 to 148). The result is
  the value bound to the local variable; \<open>None\<close> when both calls raised and the variable
  was never bound.
\<close>

definition retry_once :: "('j world \<Rightarrow> (error + 'a) \<times> 'j world) \<Rightarrow> 'j world \<Rightarrow> 'a option \<times> 'j world" where
  "retry_once call w =
     (case call w of
        (Inr v, w1) \<Rightarrow> (Some v, w1)
      | (Inl e, w1) \<Rightarrow>
          (case call w1 of
             (Inr v, w2) \<Rightarrow> (Some v, w2)
           | (Inl e', w2) \<Rightarrow> (None, w2)))"

text \<open>
  Lines 129 to 159: the clock is read, both schemas are extracted and the document is stored
  as processed. Building \<^verbatim>\<open>update_data\<close> reads both local variables; reading an unbound
  one raises \<^verbatim>\<open>UnboundLocalError\<close>.
\<close>

definition extract_and_store :: "'j env \<Rightarrow> 'j document \<Rightarrow> 'j world \<Rightarrow> (error + unit) \<times> 'j world" where
  "extract_and_store env doc w =
     (let processed_date_v = utc_now env (clock_reads w);
          w1 = w\<lparr>clock_reads := Suc (clock_reads w)\<rparr>;
          object_id = doc_id doc;
          (final_assignment_v, w2) = retry_once (get_metadata_for_final_assignment env object_id) w1;
          (final_release_v, w3) = retry_once (get_metadata_for_final_release env object_id) w2
      in case final_release_v of
           None \<Rightarrow> (Inl UnboundLocalError, w3)
         | Some fr \<Rightarrow>
             (case final_assignment_v of
                None \<Rightarrow> (Inl UnboundLocalError, w3)
              | Some fa \<Rightarrow>
                  (Inr (), w3\<lparr>store := update_one (doc_id doc)
                     (\<lambda>d. d\<lparr>status := ''processed'', processed_date := Some processed_date_v,
                             final_release := Some fr, final_assignment := Some fa\<rparr>) (store w3)\<rparr>)))"

text \<open>
  The body of the outer \<^verbatim>\<open>try\<close> of \<^verbatim>\<open>process_document\<close> (lines 96 to 159). The test
  \<^verbatim>\<open>if ocr_output:\<close> holds for a non-empty list; an absent field and an empty list take the
  OCR branch.
\<close>

definition process_document_body :: "'j env \<Rightarrow> 'j document \<Rightarrow> 'j world \<Rightarrow> (error + unit) \<times> 'j world" where
  "process_document_body env doc w =
     (let w1 = set_status (doc_id doc) ''processing'' w;
          (fl, w2) = (case ocr_output doc of
                        Some (page # rest) \<Rightarrow> cached_branch env doc (page # rest) w1
                      | _ \<Rightarrow> ocr_branch env doc w1)
      in case fl of
           Raised e \<Rightarrow> (Inl e, w2)
         | Returned \<Rightarrow> (Inr (), w2)
         | Continue \<Rightarrow> extract_and_store env doc w2)"

text \<open>\<^verbatim>\<open>process_document(doc)\<close>: the outer handler marks the document failed on any exception.\<close>

definition process_document :: "'j env \<Rightarrow> 'j document \<Rightarrow> 'j world \<Rightarrow> 'j world" where
  "process_document env doc w =
     (case process_document_body env doc w of
        (Inl e, w1) \<Rightarrow> set_status (doc_id doc) ''failed'' w1
      | (Inr _, w1) \<Rightarrow> w1)"

section \<open>Batch driver\<close>

text \<open>
  \<^verbatim>\<open>process_documents()\<close>: the documents whose status is one of the three are read from the
  store and processed one after the other, in store order.
\<close>

definition pending :: "'j document \<Rightarrow> bool" where
  "pending d = (status d \<in> set [''notprocessed'', ''processing'', ''failed''])"

definition process_documents :: "'j env \<Rightarrow> 'j world \<Rightarrow> 'j world" where
  "process_documents env w = fold (process_document env) (filter pending (store w)) w"

section \<open>Sample runs\<close>

text \<open>
  A small collection and stand-ins for the outside services, on which the statements below
  are evaluated. The analysis service finds two pages; the completion service answers the
  first two requests with corrected text, fails on the third and answers every later one
  with an empty JSON object. \<open>json_loads\<close> accepts the empty object only.
\<close>

definition sample_pages :: "document_page list" where
  "sample_pages =
     [\<lparr>page_number = 1, lines = [\<lparr>content = ''raw''\<rparr>, \<lparr>content = ''text''\<rparr>]\<rparr>,
      \<lparr>page_number = 2, lines = []\<rparr>]"

definition sample_env :: "string env" where
  "sample_env =
     \<lparr>http_get = (\<lambda>n url. if url = ''http://x/doc.png'' then Some ''image bytes'' else None),
      begin_analyze_document = (\<lambda>n bytes. Some sample_pages),
      chat_completion = (\<lambda>n messages. if n < 2 then Some '' clean text '' else if n = 2 then None else Some ''{}''),
      json_loads = (\<lambda>s. if s = ''{}'' then Some s else None),
      json_dumps = (\<lambda>field_map. concat (map fst field_map)),
      temp_path = (\<lambda>url. ''/tmp/doc.png''),
      utc_now = (\<lambda>n. ''2024-01-01T00:00:00+00:00'')\<rparr>"

definition fresh_doc :: "string document" where
  "fresh_doc =
     \<lparr>doc_id = 1, status = ''notprocessed'', image = Some ''http://x/doc.png'', ocr_output = None,
      json_data = None, processed_date = None, final_assignment = None, final_release = None\<rparr>"

definition cached_doc :: "string document" where
  "cached_doc =
     \<lparr>doc_id = 2, status = ''failed'', image = None, ocr_output = Some [[(''0'', ''raw text'')]],
      json_data = None, processed_date = None, final_assignment = None, final_release = None\<rparr>"

definition done_doc :: "string document" where
  "done_doc =
     \<lparr>doc_id = 3, status = ''processed'', image = None, ocr_output = Some [[(''0'', ''old'')]],
      json_data = Some [[(''0'', ''old'')]], processed_date = Some ''2023-12-31T00:00:00+00:00'',
      final_assignment = Some PyNone, final_release = Some PyNone\<rparr>"

definition sample_world :: "string world" where
  "sample_world =
     \<lparr>store = [fresh_doc, cached_doc, done_doc], files = Map.empty, http_log = [], ocr_log = [],
      chat_log = [], meta_log = [], clock_reads = 0\<rparr>"

text \<open>The analysis service is down.\<close>

definition ocr_down_env :: "string env" where
  "ocr_down_env = sample_env\<lparr>begin_analyze_document := (\<lambda>n bytes. None)\<rparr>"

text \<open>The analysis service finds no page.\<close>

definition no_pages_env :: "string env" where
  "no_pages_env = sample_env\<lparr>begin_analyze_document := (\<lambda>n bytes. Some [])\<rparr>"

text \<open>The completion service answers one request and is down from then on.\<close>

definition extraction_down_env :: "string env" where
  "extraction_down_env = sample_env\<lparr>chat_completion := (\<lambda>n messages. if n < 1 then Some ''clean text'' else None)\<rparr>"

text \<open>The completion service answers with text that is not JSON, or always with JSON.\<close>

definition prose_env :: "string env" where
  "prose_env = sample_env\<lparr>chat_completion := (\<lambda>n messages. Some ''not json'')\<rparr>"

definition json_env :: "string env" where
  "json_env = sample_env\<lparr>chat_completion := (\<lambda>n messages. Some '' {} '')\<rparr>"

text \<open>A world in which the image is already on disk.\<close>

definition downloaded_world :: "string world" where
  "downloaded_world = sample_world\<lparr>files := [''/tmp/doc.png'' \<mapsto> ''image bytes'']\<rparr>"

section \<open>Auxiliary facts\<close>

text \<open>The definitions unfolded when a sample run is evaluated.\<close>

lemmas sample_defs =
  sample_pages_def sample_env_def fresh_doc_def cached_doc_def done_doc_def sample_world_def
  ocr_down_env_def no_pages_env_def extraction_down_env_def prose_env_def json_env_def
  downloaded_world_def

lemmas pipeline_defs =
  process_documents_def pending_def process_document_def process_document_body_def
  set_status_def cached_branch_def ocr_branch_def ocr_try_def analyze_document_def page_entry_def
  os_remove_def store_results_def first_value_def first_key_def get_openai_response_def
  extract_and_store_def retry_once_def get_metadata_for_final_assignment_def
  get_metadata_for_final_release_def get_metadata_def find_one_def Let_def
  str_def digit_char_def strip_def isspace_def correction_messages_def metadata_messages_def

subsection \<open>The store\<close>

lemma update_one_ids:
  "(\<And>d. doc_id (f d) = doc_id d) \<Longrightarrow> map doc_id (update_one i f s) = map doc_id s"
  by (induction s) auto

lemma find_one_update_other:
  "i \<noteq> j \<Longrightarrow> (\<And>d. doc_id (f d) = doc_id d) \<Longrightarrow> find_one j (update_one i f s) = find_one j s"
  by (induction s) (auto simp: find_one_def)

lemma find_one_update_same:
  "(\<And>d. doc_id (f d) = doc_id d) \<Longrightarrow> find_one i (update_one i f s) = map_option f (find_one i s)"
  by (induction s) (auto simp: find_one_def)

lemma update_one_compose:
  "(\<And>d. doc_id (g d) = doc_id d) \<Longrightarrow> update_one i f (update_one i g s) = update_one i (\<lambda>d. f (g d)) s"
  by (induction s) auto

lemma find_one_Some_id: "find_one i s = Some d \<Longrightarrow> doc_id d = i \<and> d \<in> set s"
  by (induction s) (auto simp: find_one_def split: if_splits)

lemma find_one_None_iff: "find_one i s = None \<longleftrightarrow> i \<notin> doc_id ` set s"
  by (induction s) (auto simp: find_one_def)

subsection \<open>What each operation leaves unchanged\<close>

lemma get_openai_response_world:
  "get_openai_response env m w = (r, w') \<Longrightarrow> w' = w\<lparr>chat_log := chat_log w @ [m]\<rparr>"
  by (auto simp: get_openai_response_def Let_def split: option.splits)

lemma process_ocr_output_frame:
  "process_ocr_output env ps w = (r, w') \<Longrightarrow>
     store w' = store w \<and> files w' = files w \<and> http_log w' = http_log w \<and> ocr_log w' = ocr_log w
     \<and> meta_log w' = meta_log w \<and> clock_reads w' = clock_reads w"
proof (induction ps arbitrary: w r w')
  case Nil
  then show ?case by simp
next
  case (Cons page rest)
  show ?case
  proof (cases "first_value page")
    case (Inl e)
    with Cons.prems show ?thesis by simp
  next
    case (Inr v)
    obtain r1 w1 where g: "get_openai_response env (correction_messages v) w = (r1, w1)"
      by (cases "get_openai_response env (correction_messages v) w")
    note w1 = get_openai_response_world [OF g]
    show ?thesis
    proof (cases r1)
      case (Inl e)
      with Cons.prems Inr g w1 show ?thesis by auto
    next
      case r1: (Inr response)
      show ?thesis
      proof (cases "first_key page")
        case (Inl e)
        with Cons.prems Inr g r1 w1 show ?thesis by auto
      next
        case k: (Inr k)
        obtain r2 w2 where rec: "process_ocr_output env rest w1 = (r2, w2)"
          by (cases "process_ocr_output env rest w1")
        from Cons.IH [OF rec] w1
        have "store w2 = store w \<and> files w2 = files w \<and> http_log w2 = http_log w \<and> ocr_log w2 = ocr_log w
           \<and> meta_log w2 = meta_log w \<and> clock_reads w2 = clock_reads w"
          by simp
        moreover have "w' = w2"
          using Cons.prems Inr g r1 k rec by (auto split: sum.splits)
        ultimately show ?thesis by simp
      qed
    qed
  qed
qed

lemma analyze_document_world:
  "analyze_document env p w = (r, w') \<Longrightarrow> w' = w\<lparr>ocr_log := ocr_log w @ [p]\<rparr>"
  by (auto simp: analyze_document_def Let_def split: option.splits)

lemma get_metadata_frame:
  "get_metadata env i fm w = (r, w') \<Longrightarrow>
     store w' = store w \<and> files w' = files w \<and> http_log w' = http_log w \<and> ocr_log w' = ocr_log w
     \<and> clock_reads w' = clock_reads w"
  by (auto simp: get_metadata_def Let_def get_openai_response_def split: option.splits sum.splits prod.splits)

lemma process_ocr_output_aligned:
  "process_ocr_output env ps w = (Inr out, w') \<Longrightarrow>
     length out = length ps \<and> map first_key out = map first_key ps \<and> list_all (\<lambda>p. length p = 1) out"
proof (induction ps arbitrary: w out w')
  case Nil
  then show ?case by simp
next
  case (Cons page rest)
  from Cons.prems obtain v where v: "first_value page = Inr v"
    by (cases "first_value page") auto
  obtain r1 w1 where g: "get_openai_response env (correction_messages v) w = (r1, w1)"
    by (cases "get_openai_response env (correction_messages v) w")
  from Cons.prems v g obtain response where r1: "r1 = Inr response"
    by (cases r1) auto
  from Cons.prems v g r1 obtain k where k: "first_key page = Inr k"
    by (cases "first_key page") auto
  obtain r2 w2 where rec: "process_ocr_output env rest w1 = (r2, w2)"
    by (cases "process_ocr_output env rest w1")
  from Cons.prems v g r1 k rec obtain parts where r2: "r2 = Inr parts" and out: "out = [(k, response)] # parts"
    by (cases r2) auto
  from Cons.IH [of w1 parts w2] rec r2
  have "length parts = length rest \<and> map first_key parts = map first_key rest \<and> list_all (\<lambda>p. length p = 1) parts"
    by simp
  moreover have "first_key [(k, response)] = Inr k"
    by (simp add: first_key_def)
  ultimately show ?case
    using out k by simp
qed

lemma cached_branch_summary:
  assumes "cached_branch env doc pages w = (fl, w')"
  shows "files w' = files w \<and> http_log w' = http_log w \<and> ocr_log w' = ocr_log w
       \<and> meta_log w' = meta_log w \<and> clock_reads w' = clock_reads w
       \<and> (case process_ocr_output env pages w of
             (Inl e, w1) \<Rightarrow> fl = Raised e \<and> store w' = store w \<and> chat_log w' = chat_log w1
           | (Inr pd, w1) \<Rightarrow> fl = Continue \<and> chat_log w' = chat_log w1
               \<and> store w' = update_one (doc_id doc) (\<lambda>d. d\<lparr>ocr_output := Some pages, json_data := Some pd\<rparr>) (store w))"
proof -
  obtain r w1 where p: "process_ocr_output env pages w = (r, w1)"
    by (cases "process_ocr_output env pages w")
  from process_ocr_output_frame [OF p] assms p show ?thesis
    by (cases r) (auto simp: cached_branch_def store_results_def)
qed

lemma ocr_try_summary:
  assumes "ocr_try env doc path w = (fl, w')"
  shows "files w' = files w \<and> http_log w' = http_log w \<and> ocr_log w' = ocr_log w @ [path]
       \<and> meta_log w' = meta_log w \<and> clock_reads w' = clock_reads w
       \<and> (case analyze_document env path w of
             (Inl e, w1) \<Rightarrow> fl = Returned \<and> chat_log w' = chat_log w
                \<and> store w' = update_one (doc_id doc) (\<lambda>d. d\<lparr>status := ''failed''\<rparr>) (store w)
           | (Inr extracted, w1) \<Rightarrow>
               (if extracted = [] then fl = Returned \<and> chat_log w' = chat_log w
                   \<and> store w' = update_one (doc_id doc) (\<lambda>d. d\<lparr>status := ''failed''\<rparr>) (store w)
                else (case process_ocr_output env extracted w1 of
                        (Inl e, w2) \<Rightarrow> fl = Returned \<and> chat_log w' = chat_log w2
                           \<and> store w' = update_one (doc_id doc) (\<lambda>d. d\<lparr>status := ''failed''\<rparr>) (store w)
                      | (Inr pd, w2) \<Rightarrow> fl = Continue \<and> chat_log w' = chat_log w2
                           \<and> store w' = update_one (doc_id doc)
                                 (\<lambda>d. d\<lparr>ocr_output := Some extracted, json_data := Some pd\<rparr>) (store w))))"
proof -
  obtain r1 w1 where a: "analyze_document env path w = (r1, w1)"
    by (cases "analyze_document env path w")
  note w1 = analyze_document_world [OF a]
  show ?thesis
  proof (cases r1)
    case (Inl e)
    with assms a w1 show ?thesis
      by (auto simp: ocr_try_def set_status_def)
  next
    case r1: (Inr extracted)
    show ?thesis
    proof (cases "extracted = []")
      case True
      with assms a w1 r1 show ?thesis
        by (auto simp: ocr_try_def set_status_def)
    next
      case False
      obtain r2 w2 where p: "process_ocr_output env extracted w1 = (r2, w2)"
        by (cases "process_ocr_output env extracted w1")
      from process_ocr_output_frame [OF p] assms a w1 r1 False p show ?thesis
        by (cases r2) (auto simp: ocr_try_def set_status_def store_results_def)
    qed
  qed
qed

lemma retry_get_metadata_frame:
  assumes "retry_once (get_metadata env i fm) w = (r, w')"
  shows "store w' = store w \<and> files w' = files w \<and> http_log w' = http_log w \<and> ocr_log w' = ocr_log w
     \<and> clock_reads w' = clock_reads w"
proof -
  obtain r1 w1 where c1: "get_metadata env i fm w = (r1, w1)"
    by (cases "get_metadata env i fm w")
  obtain r2 w2 where c2: "get_metadata env i fm w1 = (r2, w2)"
    by (cases "get_metadata env i fm w1")
  from get_metadata_frame [OF c1] get_metadata_frame [OF c2] assms c1 c2 show ?thesis
    by (auto simp: retry_once_def split: sum.splits)
qed

lemma extract_and_store_summary:
  assumes "extract_and_store env doc w = (r, w')"
  shows "files w' = files w \<and> http_log w' = http_log w \<and> ocr_log w' = ocr_log w
     \<and> ((r = Inl UnboundLocalError \<and> store w' = store w)
        \<or> (\<exists>t a rl. r = Inr () \<and> store w' = update_one (doc_id doc)
               (\<lambda>d. d\<lparr>status := ''processed'', processed_date := Some t,
                       final_release := Some rl, final_assignment := Some a\<rparr>) (store w)))"
proof -
  let ?w1 = "w\<lparr>clock_reads := Suc (clock_reads w)\<rparr>"
  obtain fa w2 where a: "retry_once (get_metadata env (doc_id doc) final_assignment_fields) ?w1 = (fa, w2)"
    by (cases "retry_once (get_metadata env (doc_id doc) final_assignment_fields) ?w1")
  obtain fr w3 where b: "retry_once (get_metadata env (doc_id doc) final_release_fields) w2 = (fr, w3)"
    by (cases "retry_once (get_metadata env (doc_id doc) final_release_fields) w2")
  have fa: "get_metadata_for_final_assignment env (doc_id doc) = get_metadata env (doc_id doc) final_assignment_fields"
    and fr: "get_metadata_for_final_release env (doc_id doc) = get_metadata env (doc_id doc) final_release_fields"
    by (auto simp: get_metadata_for_final_assignment_def get_metadata_for_final_release_def)
  from retry_get_metadata_frame [OF a] retry_get_metadata_frame [OF b]
  have frame: "store w3 = store w \<and> files w3 = files w \<and> http_log w3 = http_log w \<and> ocr_log w3 = ocr_log w"
    by simp
  from assms a b have "(r, w') =
      (case fr of None \<Rightarrow> (Inl UnboundLocalError, w3)
       | Some x \<Rightarrow> (case fa of None \<Rightarrow> (Inl UnboundLocalError, w3)
           | Some y \<Rightarrow> (Inr (), w3\<lparr>store := update_one (doc_id doc)
                     (\<lambda>d. d\<lparr>status := ''processed'', processed_date := Some (utc_now env (clock_reads w)),
                             final_release := Some x, final_assignment := Some y\<rparr>) (store w3)\<rparr>)))"
    by (simp add: extract_and_store_def Let_def fa fr)
  with frame show ?thesis
    by (cases fr; cases fa) auto
qed

lemma ocr_branch_downloaded:
  assumes "image doc = Some url" and "http_get env (length (http_log w)) url = Some c"
  shows "ocr_branch env doc w =
     (case ocr_try env doc (temp_path env url)
             (w\<lparr>http_log := http_log w @ [url], files := (files w)(temp_path env url \<mapsto> c)\<rparr>) of
        (fl, w3) \<Rightarrow> (fl, w3\<lparr>files := (files w)(temp_path env url := None)\<rparr>))"
proof -
  let ?path = "temp_path env url"
  let ?w2 = "w\<lparr>http_log := http_log w @ [url], files := (files w)(?path \<mapsto> c)\<rparr>"
  obtain fl w3 where t: "ocr_try env doc ?path ?w2 = (fl, w3)"
    by (cases "ocr_try env doc ?path ?w2")
  from ocr_try_summary [OF t] have f3: "files w3 = (files w)(?path \<mapsto> c)"
    by simp
  then have "os_remove ?path w3 = (Inr (), w3\<lparr>files := (files w)(?path := None)\<rparr>)"
    by (simp add: os_remove_def)
  with assms t show ?thesis
    by (simp add: ocr_branch_def Let_def)
qed

lemma ocr_branch_not_downloaded:
  "image doc = None \<Longrightarrow> ocr_branch env doc w = (Raised KeyError, w)"
  "image doc = Some url \<Longrightarrow> http_get env (length (http_log w)) url = None \<Longrightarrow>
     ocr_branch env doc w = (Raised TransportFailure, w\<lparr>http_log := http_log w @ [url]\<rparr>)"
  by (simp_all add: ocr_branch_def Let_def)

lemma ocr_try_outcome:
  assumes "ocr_try env doc path w = (fl, w')"
  shows "(fl = Returned \<and> store w' = update_one (doc_id doc) (\<lambda>d. d\<lparr>status := ''failed''\<rparr>) (store w))
       \<or> (fl = Continue \<and> (\<exists>ex pd. store w' = update_one (doc_id doc)
                (\<lambda>d. d\<lparr>ocr_output := Some ex, json_data := Some pd\<rparr>) (store w)
              \<and> length pd = length ex \<and> map first_key pd = map first_key ex
              \<and> list_all (\<lambda>p. length p = 1) pd))"
proof -
  obtain r1 w1 where a: "analyze_document env path w = (r1, w1)"
    by (cases "analyze_document env path w")
  show ?thesis
  proof (cases r1)
    case (Inl e)
    with ocr_try_summary [OF assms] a show ?thesis by simp
  next
    case r1: (Inr extracted)
    show ?thesis
    proof (cases "extracted = []")
      case True
      with ocr_try_summary [OF assms] a r1 show ?thesis by simp
    next
      case False
      obtain r2 w2 where p: "process_ocr_output env extracted w1 = (r2, w2)"
        by (cases "process_ocr_output env extracted w1")
      show ?thesis
      proof (cases r2)
        case (Inl e)
        with ocr_try_summary [OF assms] a r1 False p show ?thesis by simp
      next
        case (Inr pd)
        with process_ocr_output_aligned [of env extracted w1 pd w2] p
        have "length pd = length extracted \<and> map first_key pd = map first_key extracted
              \<and> list_all (\<lambda>p. length p = 1) pd"
          by simp
        with ocr_try_summary [OF assms] a r1 False p Inr show ?thesis by auto
      qed
    qed
  qed
qed

lemma branch_outcome:
  assumes "(case ocr_output doc of Some (page # rest) \<Rightarrow> cached_branch env doc (page # rest) w
            | _ \<Rightarrow> ocr_branch env doc w) = (fl, w')"
  shows "(\<exists>e. fl = Raised e \<and> store w' = store w)
       \<or> (fl = Returned \<and> store w' = update_one (doc_id doc) (\<lambda>d. d\<lparr>status := ''failed''\<rparr>) (store w))
       \<or> (fl = Continue \<and> (\<exists>ex pd. store w' = update_one (doc_id doc)
                (\<lambda>d. d\<lparr>ocr_output := Some ex, json_data := Some pd\<rparr>) (store w)
              \<and> length pd = length ex \<and> map first_key pd = map first_key ex
              \<and> list_all (\<lambda>p. length p = 1) pd
              \<and> (case ocr_output doc of Some (page # rest) \<Rightarrow> ex = page # rest | _ \<Rightarrow> True)))"
proof -
  consider (cached) page rest where "ocr_output doc = Some (page # rest)"
    | (fresh) "ocr_output doc = None \<or> ocr_output doc = Some []"
    by (cases "ocr_output doc") (auto split: list.splits, metis list.exhaust)
  then show ?thesis
  proof cases
    case cached
    with assms have c: "cached_branch env doc (page # rest) w = (fl, w')" by simp
    obtain r w1 where p: "process_ocr_output env (page # rest) w = (r, w1)"
      by (cases "process_ocr_output env (page # rest) w")
    show ?thesis
    proof (cases r)
      case (Inl e)
      with cached_branch_summary [OF c] p show ?thesis by simp
    next
      case (Inr pd)
      with process_ocr_output_aligned [of env "page # rest" w pd w1] p
      have "length pd = length (page # rest) \<and> map first_key pd = map first_key (page # rest)
            \<and> list_all (\<lambda>p. length p = 1) pd"
        by simp
      with cached_branch_summary [OF c] p Inr cached show ?thesis by auto
    qed
  next
    case fresh
    with assms have o: "ocr_branch env doc w = (fl, w')" by auto
    have nocache: "(case ocr_output doc of Some (page # rest) \<Rightarrow> ex = page # rest | _ \<Rightarrow> True)" for ex
      using fresh by auto
    show ?thesis
    proof (cases "image doc")
      case None
      with o ocr_branch_not_downloaded(1) [of doc env w] show ?thesis by auto
    next
      case (Some url)
      show ?thesis
      proof (cases "http_get env (length (http_log w)) url")
        case None
        with o Some ocr_branch_not_downloaded(2) [of doc url env w] show ?thesis by auto
      next
        case (Some c)
        let ?w2 = "w\<lparr>http_log := http_log w @ [url], files := (files w)(temp_path env url \<mapsto> c)\<rparr>"
        obtain fl3 w3 where t: "ocr_try env doc (temp_path env url) ?w2 = (fl3, w3)"
          by (cases "ocr_try env doc (temp_path env url) ?w2")
        from o ocr_branch_downloaded [OF \<open>image doc = Some url\<close> Some] t
        have "fl = fl3" and "store w' = store w3" by auto
        with ocr_try_outcome [OF t] nocache show ?thesis by auto
      qed
    qed
  qed
qed

lemma process_document_outcome:
  "\<exists>f. store (process_document env doc w) = update_one (doc_id doc) f (store w)
     \<and> (f = (\<lambda>d. d\<lparr>status := ''failed''\<rparr>)
        \<or> (\<exists>ex pd. f = (\<lambda>d. d\<lparr>ocr_output := Some ex, json_data := Some pd, status := ''failed''\<rparr>)
              \<and> length pd = length ex \<and> map first_key pd = map first_key ex
              \<and> list_all (\<lambda>p. length p = 1) pd
              \<and> (case ocr_output doc of Some (page # rest) \<Rightarrow> ex = page # rest | _ \<Rightarrow> True))
        \<or> (\<exists>ex pd t a rl. f = (\<lambda>d. d\<lparr>ocr_output := Some ex, json_data := Some pd, status := ''processed'',
                                      processed_date := Some t, final_release := Some rl, final_assignment := Some a\<rparr>)
              \<and> length pd = length ex \<and> map first_key pd = map first_key ex
              \<and> list_all (\<lambda>p. length p = 1) pd
              \<and> (case ocr_output doc of Some (page # rest) \<Rightarrow> ex = page # rest | _ \<Rightarrow> True)))"
proof -
  let ?i = "doc_id doc"
  let ?w1 = "set_status ?i ''processing'' w"
  let ?branch = "case ocr_output doc of Some (page # rest) \<Rightarrow> cached_branch env doc (page # rest) ?w1
                 | _ \<Rightarrow> ocr_branch env doc ?w1"
  obtain fl w2 where b: "?branch = (fl, w2)"
    by (cases ?branch)
  have s1: "store ?w1 = update_one ?i (\<lambda>d. d\<lparr>status := ''processing''\<rparr>) (store w)"
    by (simp add: set_status_def)
  have body: "process_document_body env doc w =
      (case fl of Raised e \<Rightarrow> (Inl e, w2) | Returned \<Rightarrow> (Inr (), w2) | Continue \<Rightarrow> extract_and_store env doc w2)"
    using b by (simp add: process_document_body_def Let_def)
  from branch_outcome [OF b] consider
      (raised) e where "fl = Raised e" "store w2 = store ?w1"
    | (returned) "fl = Returned" "store w2 = update_one ?i (\<lambda>d. d\<lparr>status := ''failed''\<rparr>) (store ?w1)"
    | (continue) ex pd where "fl = Continue"
        "store w2 = update_one ?i (\<lambda>d. d\<lparr>ocr_output := Some ex, json_data := Some pd\<rparr>) (store ?w1)"
        "length pd = length ex" "map first_key pd = map first_key ex" "list_all (\<lambda>p. length p = 1) pd"
        "(case ocr_output doc of Some (page # rest) \<Rightarrow> ex = page # rest | _ \<Rightarrow> True)"
    by blast
  then show ?thesis
  proof cases
    case raised
    then have "store (process_document env doc w) = update_one ?i (\<lambda>d. d\<lparr>status := ''failed''\<rparr>) (store w)"
      by (simp add: process_document_def body set_status_def update_one_compose)
    then show ?thesis by blast
  next
    case returned
    then have "store (process_document env doc w) = update_one ?i (\<lambda>d. d\<lparr>status := ''failed''\<rparr>) (store w)"
      by (simp add: process_document_def body set_status_def update_one_compose)
    then show ?thesis by blast
  next
    case continue
    obtain r w3 where e: "extract_and_store env doc w2 = (r, w3)"
      by (cases "extract_and_store env doc w2")
    from extract_and_store_summary [OF e] consider
        (unbound) "r = Inl UnboundLocalError" "store w3 = store w2"
      | (stored) t a rl where "r = Inr ()"
          "store w3 = update_one ?i (\<lambda>d. d\<lparr>status := ''processed'', processed_date := Some t,
                       final_release := Some rl, final_assignment := Some a\<rparr>) (store w2)"
      by blast
    then show ?thesis
    proof cases
      case unbound
      with continue e
      have "store (process_document env doc w)
            = update_one ?i (\<lambda>d. d\<lparr>ocr_output := Some ex, json_data := Some pd, status := ''failed''\<rparr>) (store w)"
        by (simp add: process_document_def body set_status_def update_one_compose)
      with continue show ?thesis by blast
    next
      case stored
      with continue e
      have "store (process_document env doc w)
            = update_one ?i (\<lambda>d. d\<lparr>ocr_output := Some ex, json_data := Some pd, status := ''processed'',
                                      processed_date := Some t, final_release := Some rl, final_assignment := Some a\<rparr>) (store w)"
        by (simp add: process_document_def body set_status_def update_one_compose)
      with continue show ?thesis by blast
    qed
  qed
qed

lemma process_document_ids:
  "map doc_id (store (process_document env doc w)) = map doc_id (store w)"
proof -
  from process_document_outcome [of env doc w] obtain f where
    "store (process_document env doc w) = update_one (doc_id doc) f (store w)" and "\<And>d. doc_id (f d) = doc_id d"
    by auto
  then show ?thesis
    by (simp add: update_one_ids)
qed

lemma process_document_other:
  assumes "j \<noteq> doc_id doc"
  shows "find_one j (store (process_document env doc w)) = find_one j (store w)"
proof -
  from process_document_outcome [of env doc w] obtain f where
    "store (process_document env doc w) = update_one (doc_id doc) f (store w)" and "\<And>d. doc_id (f d) = doc_id d"
    by auto
  with assms show ?thesis
    by (simp add: find_one_update_other)
qed

lemma process_document_settles:
  assumes "find_one (doc_id doc) (store w) = Some d0"
  shows "\<exists>d'. find_one (doc_id doc) (store (process_document env doc w)) = Some d'
           \<and> (status d' = ''processed'' \<or> status d' = ''failed'')"
proof -
  from process_document_outcome [of env doc w] obtain f where
    "store (process_document env doc w) = update_one (doc_id doc) f (store w)"
    and "\<And>d. doc_id (f d) = doc_id d"
    and "\<And>d. status (f d) = ''processed'' \<or> status (f d) = ''failed''"
    by auto
  with assms show ?thesis
    by (simp add: find_one_update_same)
qed

lemma fold_process_document_ids:
  "map doc_id (store (fold (process_document env) ds w)) = map doc_id (store w)"
  by (induction ds arbitrary: w) (simp_all add: process_document_ids)

lemma fold_process_document_other:
  "j \<notin> doc_id ` set ds \<Longrightarrow> find_one j (store (fold (process_document env) ds w)) = find_one j (store w)"
  by (induction ds arbitrary: w) (simp_all add: process_document_other)

lemma find_one_present: "i \<in> set (map doc_id s) \<Longrightarrow> \<exists>d. find_one i s = Some d"
  using find_one_None_iff [of i s] by (cases "find_one i s") auto

lemma fold_process_document_settles:
  assumes "distinct (map doc_id ds)" and "d \<in> set ds" and "doc_id d \<in> set (map doc_id (store w))"
  shows "\<exists>d'. find_one (doc_id d) (store (fold (process_document env) ds w)) = Some d'
           \<and> (status d' = ''processed'' \<or> status d' = ''failed'')"
  using assms
proof (induction ds arbitrary: w)
  case Nil
  then show ?case by simp
next
  case (Cons x xs)
  let ?w1 = "process_document env x w"
  have ids: "map doc_id (store ?w1) = map doc_id (store w)"
    by (rule process_document_ids)
  show ?case
  proof (cases "d \<in> set xs")
    case True
    from Cons.prems ids have "doc_id d \<in> set (map doc_id (store ?w1))"
      by simp
    with Cons.IH [of ?w1] Cons.prems(1) True show ?thesis
      by simp
  next
    case False
    with Cons.prems have dx: "d = x" and fresh: "doc_id x \<notin> doc_id ` set xs"
      by auto
    from Cons.prems(3) dx obtain d0 where "find_one (doc_id x) (store w) = Some d0"
      using find_one_present by blast
    from process_document_settles [OF this, of env] fold_process_document_other [OF fresh, of env ?w1] dx
    show ?thesis by simp
  qed
qed


lemma map_by_index: "map f xs = map (\<lambda>i. f (xs ! i)) [0..<length xs]"
  by (rule nth_equalityI) simp_all


subsection \<open>The body of the state machine on each branch\<close>

lemma get_metadata_chat_log:
  "get_metadata env i fm w = (r, w') \<Longrightarrow> \<exists>rest. chat_log w' = chat_log w @ rest"
  by (auto simp: get_metadata_def Let_def get_openai_response_def split: option.splits sum.splits prod.splits)

lemma retry_get_metadata_chat_log:
  assumes "retry_once (get_metadata env i fm) w = (r, w')"
  shows "\<exists>rest. chat_log w' = chat_log w @ rest"
proof -
  obtain r1 w1 where c1: "get_metadata env i fm w = (r1, w1)"
    by (cases "get_metadata env i fm w")
  obtain r2 w2 where c2: "get_metadata env i fm w1 = (r2, w2)"
    by (cases "get_metadata env i fm w1")
  from get_metadata_chat_log [OF c1] get_metadata_chat_log [OF c2] assms c1 c2 show ?thesis
    by (auto simp: retry_once_def split: sum.splits)
qed

lemma extract_and_store_chat_log:
  assumes "extract_and_store env doc w = (r, w')"
  shows "\<exists>rest. chat_log w' = chat_log w @ rest"
proof -
  let ?w1 = "w\<lparr>clock_reads := Suc (clock_reads w)\<rparr>"
  obtain fa w2 where a: "retry_once (get_metadata env (doc_id doc) final_assignment_fields) ?w1 = (fa, w2)"
    by (cases "retry_once (get_metadata env (doc_id doc) final_assignment_fields) ?w1")
  obtain fr w3 where b: "retry_once (get_metadata env (doc_id doc) final_release_fields) w2 = (fr, w3)"
    by (cases "retry_once (get_metadata env (doc_id doc) final_release_fields) w2")
  have fa: "get_metadata_for_final_assignment env (doc_id doc) = get_metadata env (doc_id doc) final_assignment_fields"
    and fr: "get_metadata_for_final_release env (doc_id doc) = get_metadata env (doc_id doc) final_release_fields"
    by (auto simp: get_metadata_for_final_assignment_def get_metadata_for_final_release_def)
  from retry_get_metadata_chat_log [OF a] retry_get_metadata_chat_log [OF b]
  obtain rest where "chat_log w3 = chat_log w @ rest"
    by auto
  moreover from assms a b have "chat_log w' = chat_log w3"
    by (auto simp: extract_and_store_def Let_def fa fr split: option.splits)
  ultimately show ?thesis by simp
qed

lemma process_document_body_cached:
  assumes "ocr_output doc = Some pages" and "pages \<noteq> []"
  shows "process_document_body env doc w =
     (case process_ocr_output env pages (set_status (doc_id doc) ''processing'' w) of
        (Inl e, w2) \<Rightarrow> (Inl e, w2)
      | (Inr pd, w2) \<Rightarrow> extract_and_store env doc (store_results (doc_id doc) pages pd w2))"
proof -
  from assms obtain page rest where "pages = page # rest"
    by (cases pages) auto
  with assms(1) show ?thesis
    by (simp add: process_document_body_def cached_branch_def Let_def split: prod.splits sum.splits)
qed

lemma process_document_body_fresh:
  assumes "ocr_output doc = None \<or> ocr_output doc = Some []"
    and "image doc = Some url" and "http_get env (length (http_log w)) url = Some c"
  shows "process_document_body env doc w =
     (case ocr_try env doc (temp_path env url)
             ((set_status (doc_id doc) ''processing'' w)
                \<lparr>http_log := http_log w @ [url], files := (files w)(temp_path env url \<mapsto> c)\<rparr>) of
        (fl, w3) \<Rightarrow>
          (case fl of
             Raised e \<Rightarrow> (Inl e, w3\<lparr>files := (files w)(temp_path env url := None)\<rparr>)
           | Returned \<Rightarrow> (Inr (), w3\<lparr>files := (files w)(temp_path env url := None)\<rparr>)
           | Continue \<Rightarrow> extract_and_store env doc (w3\<lparr>files := (files w)(temp_path env url := None)\<rparr>)))"
proof -
  let ?w1 = "set_status (doc_id doc) ''processing'' w"
  have w1: "http_log ?w1 = http_log w" "files ?w1 = files w"
    by (simp_all add: set_status_def)
  from assms(3) w1 have get: "http_get env (length (http_log ?w1)) url = Some c"
    by simp
  have "(case ocr_output doc of Some (page # rest) \<Rightarrow> cached_branch env doc (page # rest) ?w1
         | _ \<Rightarrow> ocr_branch env doc ?w1) = ocr_branch env doc ?w1"
    using assms(1) by auto
  then show ?thesis
    unfolding process_document_body_def Let_def ocr_branch_downloaded [OF assms(2) get] w1
    by (simp split: prod.splits)
qed

subsection \<open>Metadata extraction and its retry\<close>

lemma first_values_error: "first_values ps = Inl e \<Longrightarrow> e = IndexError"
  by (induction ps arbitrary: e) (auto simp: first_value_def split: list.splits sum.splits)

lemma retry_once_first_attempt:
  "call w = (Inr v, w1) \<Longrightarrow> retry_once call w = (Some v, w1)"
  by (simp add: retry_once_def)

lemma retry_once_second_attempt:
  "call w = (Inl e, w1) \<Longrightarrow> call w1 = (Inr v, w2) \<Longrightarrow> retry_once call w = (Some v, w2)"
  by (simp add: retry_once_def)

lemma retry_once_gives_up:
  "call w = (Inl e, w1) \<Longrightarrow> call w1 = (Inl e', w2) \<Longrightarrow> retry_once call w = (None, w2)"
  by (simp add: retry_once_def)

lemma extract_and_store_unbound:
  assumes "retry_once (get_metadata_for_final_assignment env (doc_id doc)) (w\<lparr>clock_reads := Suc (clock_reads w)\<rparr>) = (None, w2)"
  shows "fst (extract_and_store env doc w) = Inl UnboundLocalError"
  using assms by (simp add: extract_and_store_def Let_def split: prod.splits option.splits)

lemma metadata_retry_sample_run:
  "map status (store (process_document sample_env fresh_doc sample_world)) = [''processed'', ''failed'', ''processed'']
   \<and> map final_assignment (store (process_document sample_env fresh_doc sample_world))
        = [Some (PyJson ''{}''), None, Some PyNone]
   \<and> meta_log (process_document sample_env fresh_doc sample_world)
        = [(1, final_assignment_fields), (1, final_assignment_fields), (1, final_release_fields)]"
  by (simp add: sample_defs pipeline_defs)

section \<open>Claims\<close>

text \<open>
  C1. Every document that is pending (status \<^verbatim>\<open>notprocessed\<close>, \<^verbatim>\<open>processing\<close> or
  \<^verbatim>\<open>failed\<close>) when a batch pass starts is stored as \<^verbatim>\<open>processed\<close> or \<^verbatim>\<open>failed\<close> when the
  pass ends, never as \<^verbatim>\<open>processing\<close>. \<open>process_document\<close> returns a world for every
  document and every behaviour of the services: each exception of its body ends in the outer
  handler, so the pass reaches every pending document whatever happened to the ones before.
  The ids of a collection are distinct.
\<close>

theorem batch_pass_settles_pending_documents:
  assumes "distinct (map doc_id (store w))" and "d \<in> set (store w)" and "pending d"
  shows "\<exists>d'. find_one (doc_id d) (store (process_documents env w)) = Some d'
           \<and> (status d' = ''processed'' \<or> status d' = ''failed'')"
proof -
  have "distinct (map doc_id (filter pending (store w)))"
    using assms(1) by (simp add: distinct_map_filter)
  moreover have "d \<in> set (filter pending (store w))"
    using assms(2,3) by simp
  moreover have "doc_id d \<in> set (map doc_id (store w))"
    using assms(2) by simp
  ultimately show ?thesis
    unfolding process_documents_def by (rule fold_process_document_settles)
qed

theorem batch_pass_settles_pending_documents_witness:
  "distinct (map doc_id (store sample_world)) \<and> cached_doc \<in> set (store sample_world) \<and> pending cached_doc
   \<and> (\<exists>d'. find_one (doc_id cached_doc) (store (process_documents sample_env sample_world)) = Some d'
           \<and> (status d' = ''processed'' \<or> status d' = ''failed''))"
proof -
  have h1: "distinct (map doc_id (store sample_world))"
    by (simp add: sample_defs)
  have h2: "cached_doc \<in> set (store sample_world)"
    by (simp add: sample_defs)
  have h3: "pending cached_doc"
    by (simp add: sample_defs pending_def)
  from batch_pass_settles_pending_documents [OF h1 h2 h3, of sample_env] h1 h2 h3 show ?thesis
    by blast
qed

text \<open>
  C2. A metadata call that raises is tried once more (\<open>retry_once_second_attempt\<close>, and
  \<open>metadata_retry_sample_run\<close>: two calls for the assignment schema, the second result
  stored, the document processed). When the second call raises as well the code does not go
  on to mark the document processed: the local variable was never bound, building
  \<^verbatim>\<open>update_data\<close> raises \<^verbatim>\<open>UnboundLocalError\<close>, and the outer handler marks the document
  failed. The run below has a document with cached OCR output and a completion service that
  answers the correction request and is down afterwards: both schemas are asked for twice,
  the corrected page is stored, and the document ends failed with no \<^verbatim>\<open>final_assignment\<close>.
\<close>

theorem double_extraction_failure_marks_failed:
  "map status (store (process_document extraction_down_env cached_doc sample_world))
     = [''notprocessed'', ''failed'', ''processed'']
   \<and> map json_data (store (process_document extraction_down_env cached_doc sample_world))
     = [None, Some [[(''0'', ''clean text'')]], Some [[(''0'', ''old'')]]]
   \<and> map final_assignment (store (process_document extraction_down_env cached_doc sample_world))
     = [None, None, Some PyNone]
   \<and> meta_log (process_document extraction_down_env cached_doc sample_world)
     = [(2, final_assignment_fields), (2, final_assignment_fields),
        (2, final_release_fields), (2, final_release_fields)]"
  by (simp add: sample_defs pipeline_defs)

text \<open>
  C3. For a document whose \<^verbatim>\<open>ocr_output\<close> is a non-empty list, \<open>process_document\<close> never
  calls \<open>analyze_document\<close> (the log of OCR calls is unchanged), downloads nothing (the log
  of downloads and the local files are unchanged), and corrects the cached pages themselves:
  the completion requests of the correction of the cached pages come first, a correction that
  raises ends the run with the document failed, and one that succeeds is what is stored as
  \<^verbatim>\<open>json_data\<close>.
\<close>

theorem cached_ocr_output_skips_ocr_and_download:
  assumes "ocr_output doc = Some pages" and "pages \<noteq> []"
  shows "ocr_log (process_document env doc w) = ocr_log w
       \<and> http_log (process_document env doc w) = http_log w
       \<and> files (process_document env doc w) = files w
       \<and> (case process_ocr_output env pages (set_status (doc_id doc) ''processing'' w) of
            (Inl e, w1) \<Rightarrow>
               chat_log (process_document env doc w) = chat_log w1
               \<and> store (process_document env doc w)
                   = update_one (doc_id doc) (\<lambda>d. d\<lparr>status := ''failed''\<rparr>) (store w)
          | (Inr processed_data, w1) \<Rightarrow>
               (\<exists>rest. chat_log (process_document env doc w) = chat_log w1 @ rest)
               \<and> map_option json_data (find_one (doc_id doc) (store (process_document env doc w)))
                   = map_option (\<lambda>d. Some processed_data) (find_one (doc_id doc) (store w)))"
proof -
  let ?i = "doc_id doc"
  let ?w0 = "set_status ?i ''processing'' w"
  obtain r w1 where p: "process_ocr_output env pages ?w0 = (r, w1)"
    by (cases "process_ocr_output env pages ?w0")
  note body = process_document_body_cached [OF assms, of env w]
  have w0: "store ?w0 = update_one ?i (\<lambda>d. d\<lparr>status := ''processing''\<rparr>) (store w)"
    "files ?w0 = files w" "http_log ?w0 = http_log w" "ocr_log ?w0 = ocr_log w"
    by (simp_all add: set_status_def)
  from process_ocr_output_frame [OF p] w0
  have w1: "store w1 = update_one ?i (\<lambda>d. d\<lparr>status := ''processing''\<rparr>) (store w)"
    "files w1 = files w" "http_log w1 = http_log w" "ocr_log w1 = ocr_log w"
    by simp_all
  show ?thesis
  proof (cases r)
    case (Inl e)
    with body p have "process_document env doc w = set_status ?i ''failed'' w1"
      by (simp add: process_document_def)
    with w1 p Inl show ?thesis
      by (simp add: set_status_def update_one_compose)
  next
    case (Inr pd)
    let ?w2 = "store_results ?i pages pd w1"
    obtain r3 w3 where e: "extract_and_store env doc ?w2 = (r3, w3)"
      by (cases "extract_and_store env doc ?w2")
    have w2: "store ?w2 = update_one ?i (\<lambda>d. d\<lparr>status := ''processing'', ocr_output := Some pages, json_data := Some pd\<rparr>) (store w)"
      "files ?w2 = files w" "http_log ?w2 = http_log w" "ocr_log ?w2 = ocr_log w" "chat_log ?w2 = chat_log w1"
      using w1 by (simp_all add: store_results_def update_one_compose)
    from extract_and_store_chat_log [OF e] w2 obtain rest where chat: "chat_log w3 = chat_log w1 @ rest"
      by auto
    note sum = extract_and_store_summary [OF e]
    from body p Inr e have pd: "process_document env doc w =
        (case r3 of Inl e \<Rightarrow> set_status ?i ''failed'' w3 | Inr u \<Rightarrow> w3)"
      by (simp add: process_document_def)
    from sum w2 pd chat have logs: "ocr_log (process_document env doc w) = ocr_log w
       \<and> http_log (process_document env doc w) = http_log w
       \<and> files (process_document env doc w) = files w
       \<and> chat_log (process_document env doc w) = chat_log w1 @ rest"
      by (auto simp: set_status_def)
    from sum w2 pd have "\<exists>f. store (process_document env doc w) = update_one ?i f (store w)
        \<and> (\<forall>d. doc_id (f d) = doc_id d \<and> json_data (f d) = Some pd)"
    proof (elim conjE disjE exE, goal_cases)
      case 1
      then have "store (process_document env doc w)
           = update_one ?i (\<lambda>d. d\<lparr>ocr_output := Some pages, json_data := Some pd, status := ''failed''\<rparr>) (store w)"
        by (simp add: set_status_def update_one_compose)
      then show ?case by (intro exI conjI, assumption) simp
    next
      case (2 t a rl)
      then have "store (process_document env doc w)
           = update_one ?i (\<lambda>d. d\<lparr>ocr_output := Some pages, json_data := Some pd, status := ''processed'',
                 processed_date := Some t, final_release := Some rl, final_assignment := Some a\<rparr>) (store w)"
        by (simp add: update_one_compose)
      then show ?case by (intro exI conjI, assumption) simp
    qed
    then obtain f where "store (process_document env doc w) = update_one ?i f (store w)"
      and "\<And>d. doc_id (f d) = doc_id d" and "\<And>d. json_data (f d) = Some pd"
      by auto
    then have "map_option json_data (find_one ?i (store (process_document env doc w)))
                   = map_option (\<lambda>d. Some pd) (find_one ?i (store w))"
      by (simp add: find_one_update_same option.map_comp comp_def)
    with logs p Inr show ?thesis
      by auto
  qed
qed

theorem cached_ocr_output_skips_ocr_and_download_witness:
  "ocr_output cached_doc = Some [[(''0'', ''raw text'')]]
   \<and> [[(''0'', ''raw text'')]] \<noteq> ([] :: page list)
   \<and> ocr_log (process_document sample_env cached_doc sample_world) = []
   \<and> http_log (process_document sample_env cached_doc sample_world) = []
   \<and> files (process_document sample_env cached_doc sample_world) = Map.empty
   \<and> map_option json_data (find_one (doc_id cached_doc) (store (process_document sample_env cached_doc sample_world)))
        = Some (Some [[(''0'', ''clean text'')]])"
proof -
  have h1: "ocr_output cached_doc = Some [[(''0'', ''raw text'')]]"
    by (simp add: sample_defs)
  have h2: "[[(''0'', ''raw text'')]] \<noteq> ([] :: page list)"
    by simp
  have p: "fst (process_ocr_output sample_env [[(''0'', ''raw text'')]]
                  (set_status (doc_id cached_doc) ''processing'' sample_world))
             = Inr [[(''0'', ''clean text'')]]"
    by (simp add: sample_defs pipeline_defs)
  have f: "find_one (doc_id cached_doc) (store sample_world) = Some cached_doc"
    by (simp add: sample_defs find_one_def)
  have w: "ocr_log sample_world = []" "http_log sample_world = []" "files sample_world = Map.empty"
    by (simp_all add: sample_defs)
  note t = cached_ocr_output_skips_ocr_and_download [OF h1 h2, of sample_env sample_world]
  from t w have logs: "ocr_log (process_document sample_env cached_doc sample_world) = []
       \<and> http_log (process_document sample_env cached_doc sample_world) = []
       \<and> files (process_document sample_env cached_doc sample_world) = Map.empty"
    by simp
  from t p f have "map_option json_data (find_one (doc_id cached_doc) (store (process_document sample_env cached_doc sample_world)))
        = Some (Some [[(''0'', ''clean text'')]])"
    by (auto split: prod.splits sum.splits)
  with logs h1 h2 show ?thesis
    by blast
qed

text \<open>
  C4. For a document without cached OCR output whose image was downloaded, the temporary
  file does not exist when \<open>process_document\<close> returns, whatever the analysis, the
  correction and the extraction did, and no other file is touched. When the analysis service
  fails, the only change to the store is that the document is marked failed.
\<close>

theorem temporary_file_removed:
  assumes "ocr_output doc = None \<or> ocr_output doc = Some []"
    and "image doc = Some url" and "http_get env (length (http_log w)) url = Some c"
  shows "files (process_document env doc w) = (files w)(temp_path env url := None)
       \<and> (begin_analyze_document env (length (ocr_log w)) c = None \<longrightarrow>
            store (process_document env doc w)
              = update_one (doc_id doc) (\<lambda>d. d\<lparr>status := ''failed''\<rparr>) (store w))"
proof -
  let ?i = "doc_id doc" and ?path = "temp_path env url"
  let ?w2 = "(set_status ?i ''processing'' w)\<lparr>http_log := http_log w @ [url], files := (files w)(?path \<mapsto> c)\<rparr>"
  obtain fl w3 where t: "ocr_try env doc ?path ?w2 = (fl, w3)"
    by (cases "ocr_try env doc ?path ?w2")
  let ?w3 = "w3\<lparr>files := (files w)(?path := None)\<rparr>"
  note body = process_document_body_fresh [OF assms]
  have "files (process_document env doc w) = (files w)(?path := None)"
  proof (cases fl)
    case (Raised e)
    with body t show ?thesis by (simp add: process_document_def set_status_def)
  next
    case Returned
    with body t show ?thesis by (simp add: process_document_def)
  next
    case Continue
    obtain r4 w4 where e: "extract_and_store env doc ?w3 = (r4, w4)"
      by (cases "extract_and_store env doc ?w3")
    from extract_and_store_summary [OF e] have "files w4 = (files w)(?path := None)"
      by simp
    with body t Continue e show ?thesis
      by (cases r4) (simp_all add: process_document_def set_status_def)
  qed
  moreover have "store (process_document env doc w) = update_one ?i (\<lambda>d. d\<lparr>status := ''failed''\<rparr>) (store w)"
    if "begin_analyze_document env (length (ocr_log w)) c = None"
  proof -
    from that have "analyze_document env ?path ?w2 = (Inl OcrFailure, ?w2\<lparr>ocr_log := ocr_log ?w2 @ [?path]\<rparr>)"
      by (simp add: analyze_document_def set_status_def)
    with ocr_try_summary [OF t]
    have "fl = Returned" and "store w3 = update_one ?i (\<lambda>d. d\<lparr>status := ''failed''\<rparr>) (store ?w2)"
      by simp_all
    with body t show ?thesis
      by (simp add: process_document_def set_status_def update_one_compose)
  qed
  ultimately show ?thesis by simp
qed

theorem temporary_file_removed_witness:
  "(ocr_output fresh_doc = None \<or> ocr_output fresh_doc = Some [])
   \<and> image fresh_doc = Some ''http://x/doc.png''
   \<and> http_get ocr_down_env (length (http_log sample_world)) ''http://x/doc.png'' = Some ''image bytes''
   \<and> begin_analyze_document ocr_down_env (length (ocr_log sample_world)) ''image bytes'' = None
   \<and> files (process_document ocr_down_env fresh_doc sample_world) ''/tmp/doc.png'' = None
   \<and> map status (store (process_document ocr_down_env fresh_doc sample_world))
        = [''failed'', ''failed'', ''processed'']"
proof -
  have h1: "ocr_output fresh_doc = None \<or> ocr_output fresh_doc = Some []"
    by (simp add: sample_defs)
  have h2: "image fresh_doc = Some ''http://x/doc.png''"
    by (simp add: sample_defs)
  have h3: "http_get ocr_down_env (length (http_log sample_world)) ''http://x/doc.png'' = Some ''image bytes''"
    by (simp add: sample_defs)
  have h4: "begin_analyze_document ocr_down_env (length (ocr_log sample_world)) ''image bytes'' = None"
    by (simp add: sample_defs)
  have path: "temp_path ocr_down_env ''http://x/doc.png'' = ''/tmp/doc.png''"
    by (simp add: sample_defs)
  have st: "map status (update_one (doc_id fresh_doc) (\<lambda>d. d\<lparr>status := ''failed''\<rparr>) (store sample_world))
              = [''failed'', ''failed'', ''processed'']"
    by (simp add: sample_defs)
  from temporary_file_removed [OF h1 h2 h3] h4 path st
  have "files (process_document ocr_down_env fresh_doc sample_world) ''/tmp/doc.png'' = None
      \<and> map status (store (process_document ocr_down_env fresh_doc sample_world))
           = [''failed'', ''failed'', ''processed'']"
    by simp
  with h1 h2 h3 h4 show ?thesis
    by blast
qed

text \<open>
  C5. When the analysis service returns no page for a downloaded document, the only change
  to the store is that the document is marked failed (no \<^verbatim>\<open>ocr_output\<close> and no
  \<^verbatim>\<open>json_data\<close> is written, and it is not marked processed), no completion request is made
  and no metadata is asked for.
\<close>

theorem empty_ocr_result_marks_failed:
  assumes "ocr_output doc = None \<or> ocr_output doc = Some []"
    and "image doc = Some url" and "http_get env (length (http_log w)) url = Some c"
    and "begin_analyze_document env (length (ocr_log w)) c = Some []"
  shows "store (process_document env doc w) = update_one (doc_id doc) (\<lambda>d. d\<lparr>status := ''failed''\<rparr>) (store w)
       \<and> chat_log (process_document env doc w) = chat_log w
       \<and> meta_log (process_document env doc w) = meta_log w
       \<and> ocr_log (process_document env doc w) = ocr_log w @ [temp_path env url]"
proof -
  let ?i = "doc_id doc" and ?path = "temp_path env url"
  let ?w2 = "(set_status ?i ''processing'' w)\<lparr>http_log := http_log w @ [url], files := (files w)(?path \<mapsto> c)\<rparr>"
  obtain fl w3 where t: "ocr_try env doc ?path ?w2 = (fl, w3)"
    by (cases "ocr_try env doc ?path ?w2")
  from assms(4) have "analyze_document env ?path ?w2 = (Inr [], ?w2\<lparr>ocr_log := ocr_log ?w2 @ [?path]\<rparr>)"
    by (simp add: analyze_document_def set_status_def)
  with ocr_try_summary [OF t]
  have "fl = Returned" and "store w3 = update_one ?i (\<lambda>d. d\<lparr>status := ''failed''\<rparr>) (store ?w2)"
    and "chat_log w3 = chat_log ?w2" and "meta_log w3 = meta_log ?w2" and "ocr_log w3 = ocr_log ?w2 @ [?path]"
    by simp_all
  with process_document_body_fresh [OF assms(1-3)] t show ?thesis
    by (simp add: process_document_def set_status_def update_one_compose)
qed

theorem empty_ocr_result_marks_failed_witness:
  "(ocr_output fresh_doc = None \<or> ocr_output fresh_doc = Some [])
   \<and> image fresh_doc = Some ''http://x/doc.png''
   \<and> http_get no_pages_env (length (http_log sample_world)) ''http://x/doc.png'' = Some ''image bytes''
   \<and> begin_analyze_document no_pages_env (length (ocr_log sample_world)) ''image bytes'' = Some []
   \<and> store (process_document no_pages_env fresh_doc sample_world)
        = [fresh_doc\<lparr>status := ''failed''\<rparr>, cached_doc, done_doc]
   \<and> chat_log (process_document no_pages_env fresh_doc sample_world) = []
   \<and> meta_log (process_document no_pages_env fresh_doc sample_world) = []"
proof -
  have h1: "ocr_output fresh_doc = None \<or> ocr_output fresh_doc = Some []"
    by (simp add: sample_defs)
  have h2: "image fresh_doc = Some ''http://x/doc.png''"
    by (simp add: sample_defs)
  have h3: "http_get no_pages_env (length (http_log sample_world)) ''http://x/doc.png'' = Some ''image bytes''"
    by (simp add: sample_defs)
  have h4: "begin_analyze_document no_pages_env (length (ocr_log sample_world)) ''image bytes'' = Some []"
    by (simp add: sample_defs)
  have st: "update_one (doc_id fresh_doc) (\<lambda>d. d\<lparr>status := ''failed''\<rparr>) (store sample_world)
              = [fresh_doc\<lparr>status := ''failed''\<rparr>, cached_doc, done_doc]"
    by (simp add: sample_world_def fresh_doc_def)
  have w: "chat_log sample_world = []" "meta_log sample_world = []"
    by (simp_all add: sample_defs)
  from empty_ocr_result_marks_failed [OF h1 h2 h3 h4] st w
  have "store (process_document no_pages_env fresh_doc sample_world)
        = [fresh_doc\<lparr>status := ''failed''\<rparr>, cached_doc, done_doc]
      \<and> chat_log (process_document no_pages_env fresh_doc sample_world) = []
      \<and> meta_log (process_document no_pages_env fresh_doc sample_world) = []"
    by simp
  with h1 h2 h3 h4 show ?thesis
    by blast
qed

text \<open>
  C6. After \<open>process_document\<close>, a stored document that was marked processed, or whose
  \<^verbatim>\<open>ocr_output\<close> or \<^verbatim>\<open>json_data\<close> changed, holds both lists, written together:
  \<^verbatim>\<open>json_data\<close> has one entry per entry of \<^verbatim>\<open>ocr_output\<close>, each a dict with one key,
  and the keys are those of the \<^verbatim>\<open>ocr_output\<close> entries, position by position.
\<close>

theorem persisted_pages_aligned:
  assumes "find_one (doc_id doc) (store w) = Some d0"
  shows "\<exists>d'. find_one (doc_id doc) (store (process_document env doc w)) = Some d'
           \<and> (status d' = ''processed'' \<or> ocr_output d' \<noteq> ocr_output d0 \<or> json_data d' \<noteq> json_data d0 \<longrightarrow>
                (\<exists>extracted_data processed_data.
                    ocr_output d' = Some extracted_data \<and> json_data d' = Some processed_data
                  \<and> length processed_data = length extracted_data
                  \<and> map first_key processed_data = map first_key extracted_data
                  \<and> list_all (\<lambda>page. length page = 1) processed_data))"
proof -
  from process_document_outcome [of env doc w] obtain f where
    st: "store (process_document env doc w) = update_one (doc_id doc) f (store w)"
    and f: "f = (\<lambda>d. d\<lparr>status := ''failed''\<rparr>)
        \<or> (\<exists>ex pd. f = (\<lambda>d. d\<lparr>ocr_output := Some ex, json_data := Some pd, status := ''failed''\<rparr>)
              \<and> length pd = length ex \<and> map first_key pd = map first_key ex
              \<and> list_all (\<lambda>p. length p = 1) pd)
        \<or> (\<exists>ex pd t a rl. f = (\<lambda>d. d\<lparr>ocr_output := Some ex, json_data := Some pd, status := ''processed'',
                                      processed_date := Some t, final_release := Some rl, final_assignment := Some a\<rparr>)
              \<and> length pd = length ex \<and> map first_key pd = map first_key ex
              \<and> list_all (\<lambda>p. length p = 1) pd)"
    by blast
  from f have id: "\<And>d. doc_id (f d) = doc_id d" by auto
  from st assms id have found: "find_one (doc_id doc) (store (process_document env doc w)) = Some (f d0)"
    by (simp add: find_one_update_same)
  from f show ?thesis
    unfolding found by (elim disjE exE conjE) simp_all
qed

theorem persisted_pages_aligned_witness:
  "find_one (doc_id fresh_doc) (store sample_world) = Some fresh_doc
   \<and> (\<exists>d'. find_one (doc_id fresh_doc) (store (process_document sample_env fresh_doc sample_world)) = Some d'
         \<and> status d' = ''processed''
         \<and> (\<exists>extracted_data processed_data.
                ocr_output d' = Some extracted_data \<and> json_data d' = Some processed_data
              \<and> length processed_data = length extracted_data
              \<and> map first_key processed_data = map first_key extracted_data
              \<and> list_all (\<lambda>page. length page = 1) processed_data))"
proof -
  have h: "find_one (doc_id fresh_doc) (store sample_world) = Some fresh_doc"
    by (simp add: sample_defs find_one_def)
  have st: "map_option status (find_one (doc_id fresh_doc) (store (process_document sample_env fresh_doc sample_world)))
              = Some ''processed''"
    by (simp add: sample_defs pipeline_defs)
  from persisted_pages_aligned [OF h, of sample_env] obtain d' where
    f: "find_one (doc_id fresh_doc) (store (process_document sample_env fresh_doc sample_world)) = Some d'"
    and imp: "status d' = ''processed'' \<or> ocr_output d' \<noteq> ocr_output fresh_doc \<or> json_data d' \<noteq> json_data fresh_doc \<longrightarrow>
                (\<exists>extracted_data processed_data.
                    ocr_output d' = Some extracted_data \<and> json_data d' = Some processed_data
                  \<and> length processed_data = length extracted_data
                  \<and> map first_key processed_data = map first_key extracted_data
                  \<and> list_all (\<lambda>page. length page = 1) processed_data)"
    by blast
  from st f have "status d' = ''processed''"
    by simp
  with f imp h show ?thesis
    by blast
qed

text \<open>
  C7. \<open>get_metadata\<close> raises the not-found error exactly when no stored document has the
  id. When the document exists and the completion service answers with text that
  \<^verbatim>\<open>json.loads\<close> rejects, \<open>get_metadata\<close> raises nothing and returns \<^verbatim>\<open>None\<close>.
\<close>

theorem get_metadata_not_found_and_parse_failure:
  "(fst (get_metadata env object_id field_map w) = Inl NotFound \<longleftrightarrow> find_one object_id (store w) = None)
   \<and> (\<forall>document contents c.
          find_one object_id (store w) = Some document \<longrightarrow>
          first_values (case json_data document of None \<Rightarrow> [] | Some pages \<Rightarrow> pages) = Inr contents \<longrightarrow>
          chat_completion env (length (chat_log w)) (metadata_messages env (join '' '' contents) field_map) = Some c \<longrightarrow>
          json_loads env (strip c) = None \<longrightarrow>
          fst (get_metadata env object_id field_map w) = Inr PyNone)"
proof (intro conjI allI impI)
  show "fst (get_metadata env object_id field_map w) = Inl NotFound \<longleftrightarrow> find_one object_id (store w) = None"
  proof (cases "find_one object_id (store w)")
    case None
    then show ?thesis by (simp add: get_metadata_def)
  next
    case (Some document)
    let ?pages = "case json_data document of None \<Rightarrow> [] | Some pages \<Rightarrow> pages"
    have "fst (get_metadata env object_id field_map w) \<noteq> Inl NotFound"
    proof (cases "first_values ?pages")
      case (Inl e)
      with first_values_error [OF Inl] Some show ?thesis
        by (simp add: get_metadata_def)
    next
      case (Inr contents)
      with Some show ?thesis
        by (auto simp: get_metadata_def get_openai_response_def Let_def split: option.splits)
    qed
    with Some show ?thesis by simp
  qed
next
  fix document contents c
  assume "find_one object_id (store w) = Some document"
    and "first_values (case json_data document of None \<Rightarrow> [] | Some pages \<Rightarrow> pages) = Inr contents"
    and "chat_completion env (length (chat_log w)) (metadata_messages env (join '' '' contents) field_map) = Some c"
    and "json_loads env (strip c) = None"
  then show "fst (get_metadata env object_id field_map w) = Inr PyNone"
    by (simp add: get_metadata_def get_openai_response_def)
qed

theorem get_metadata_not_found_and_parse_failure_witness:
  "find_one 9 (store sample_world) = None
   \<and> fst (get_metadata prose_env 9 final_release_fields sample_world) = Inl NotFound
   \<and> find_one 2 (store sample_world) = Some cached_doc
   \<and> first_values (case json_data cached_doc of None \<Rightarrow> [] | Some pages \<Rightarrow> pages) = Inr []
   \<and> chat_completion prose_env (length (chat_log sample_world))
        (metadata_messages prose_env (join '' '' []) final_release_fields) = Some ''not json''
   \<and> json_loads prose_env (strip ''not json'') = None
   \<and> fst (get_metadata prose_env 2 final_release_fields sample_world) = Inr PyNone"
proof -
  have h0: "find_one 9 (store sample_world) = None"
    by (simp add: sample_defs find_one_def)
  have h1: "find_one 2 (store sample_world) = Some cached_doc"
    by (simp add: sample_defs find_one_def)
  have h2: "first_values (case json_data cached_doc of None \<Rightarrow> [] | Some pages \<Rightarrow> pages) = Inr []"
    by (simp add: sample_defs)
  have h3: "chat_completion prose_env (length (chat_log sample_world))
        (metadata_messages prose_env (join '' '' []) final_release_fields) = Some ''not json''"
    by (simp add: sample_defs)
  have h4: "json_loads prose_env (strip ''not json'') = None"
    by (simp add: sample_defs strip_def isspace_def)
  from get_metadata_not_found_and_parse_failure [of prose_env 9 final_release_fields sample_world] h0
  have a: "fst (get_metadata prose_env 9 final_release_fields sample_world) = Inl NotFound"
    by blast
  from get_metadata_not_found_and_parse_failure [of prose_env 2 final_release_fields sample_world] h1 h2 h3 h4
  have b: "fst (get_metadata prose_env 2 final_release_fields sample_world) = Inr PyNone"
    by blast
  from a b h0 h1 h2 h3 h4 show ?thesis
    by blast
qed

text \<open>
  C8. When the file can be read and the analysis service answers, \<open>analyze_document\<close>
  returns one entry per page of the answer, in the order of the answer; each entry is a dict
  with one key, the page number less one written in decimal, whose value is the contents of
  the lines of the page joined by single spaces. When the service numbers the pages from one,
  as it does for a whole document, the key of the i-th entry (counting from zero) is i.
\<close>

theorem analyze_document_pages:
  assumes "files w document_path = Some bytes"
    and "begin_analyze_document env (length (ocr_log w)) bytes = Some pages"
  shows "fst (analyze_document env document_path w)
           = Inr (map (\<lambda>p. [(str (page_number p - 1), join '' '' (map content (lines p)))]) pages)
         \<and> (map page_number pages = map int [1..<Suc (length pages)] \<longrightarrow>
              fst (analyze_document env document_path w)
                = Inr (map (\<lambda>i. [(str (int i), join '' '' (map content (lines (pages ! i))))])
                         [0..<length pages]))"
proof -
  let ?entry = "\<lambda>p. [(str (page_number p - 1), join '' '' (map content (lines p)))]"
  have res: "fst (analyze_document env document_path w) = Inr (map ?entry pages)"
    using assms by (simp add: analyze_document_def page_entry_def Let_def cong: map_cong)
  have "map ?entry pages
          = map (\<lambda>i. [(str (int i), join '' '' (map content (lines (pages ! i))))]) [0..<length pages]"
    if numbered: "map page_number pages = map int [1..<Suc (length pages)]"
  proof -
    have "page_number (pages ! i) = int i + 1" if "i < length pages" for i
    proof -
      have "page_number (pages ! i) = map page_number pages ! i"
        using that by simp
      also have "\<dots> = int ([1..<Suc (length pages)] ! i)"
        using that by (simp only: numbered) (simp del: upt_Suc)
      also have "\<dots> = int i + 1"
        using that by (simp del: upt_Suc)
      finally show ?thesis .
    qed
    then have "map (\<lambda>i. ?entry (pages ! i)) [0..<length pages]
          = map (\<lambda>i. [(str (int i), join '' '' (map content (lines (pages ! i))))]) [0..<length pages]"
      by simp
    then show ?thesis
      using map_by_index [of ?entry pages] by simp
  qed
  with res show ?thesis by simp
qed

theorem analyze_document_pages_witness:
  "files downloaded_world ''/tmp/doc.png'' = Some ''image bytes''
   \<and> begin_analyze_document sample_env (length (ocr_log downloaded_world)) ''image bytes'' = Some sample_pages
   \<and> map page_number sample_pages = map int [1..<Suc (length sample_pages)]
   \<and> fst (analyze_document sample_env ''/tmp/doc.png'' downloaded_world)
        = Inr [[(''0'', ''raw text'')], [(''1'', [])]]"
proof -
  have h1: "files downloaded_world ''/tmp/doc.png'' = Some ''image bytes''"
    by (simp add: sample_defs)
  have h2: "begin_analyze_document sample_env (length (ocr_log downloaded_world)) ''image bytes'' = Some sample_pages"
    by (simp add: sample_defs)
  have h3: "map page_number sample_pages = map int [1..<Suc (length sample_pages)]"
    by (simp add: sample_pages_def upt_rec)
  have ev: "map (\<lambda>i. [(str (int i), join '' '' (map content (lines (sample_pages ! i))))]) [0..<length sample_pages]
          = [[(''0'', ''raw text'')], [(''1'', [])]]"
    by (simp add: sample_pages_def upt_rec str_def digit_char_def)
  from analyze_document_pages [OF h1 h2] h3
  have "fst (analyze_document sample_env ''/tmp/doc.png'' downloaded_world)
          = Inr (map (\<lambda>i. [(str (int i), join '' '' (map content (lines (sample_pages ! i))))])
                   [0..<length sample_pages])"
    by blast
  then have "fst (analyze_document sample_env ''/tmp/doc.png'' downloaded_world)
          = Inr [[(''0'', ''raw text'')], [(''1'', [])]]"
    unfolding ev .
  with h1 h2 h3 show ?thesis
    by blast
qed

text \<open>
  C9. For a stored document without \<^verbatim>\<open>json_data\<close>, or with an empty one, \<open>get_metadata\<close>
  sends the extraction prompt built from the empty combined content, and its result is that
  of the completion: the parsed answer, \<^verbatim>\<open>None\<close> for an answer that is not JSON, or the
  failure of the completion service itself. No other exception is raised.
\<close>

theorem get_metadata_without_json_data:
  assumes "find_one object_id (store w) = Some document"
    and "json_data document = None \<or> json_data document = Some []"
  shows "chat_log (snd (get_metadata env object_id field_map w))
           = chat_log w @ [metadata_messages env [] field_map]
       \<and> fst (get_metadata env object_id field_map w)
           = (case chat_completion env (length (chat_log w)) (metadata_messages env [] field_map) of
                None \<Rightarrow> Inl CompletionFailure
              | Some c \<Rightarrow> Inr (case json_loads env (strip c) of None \<Rightarrow> PyNone | Some j \<Rightarrow> PyJson j))"
proof -
  from assms(2) have "first_values (case json_data document of None \<Rightarrow> [] | Some pages \<Rightarrow> pages) = Inr []"
    by auto
  with assms(1) show ?thesis
    by (simp add: get_metadata_def get_openai_response_def split: option.splits)
qed

theorem get_metadata_without_json_data_witness:
  "find_one 2 (store sample_world) = Some cached_doc
   \<and> (json_data cached_doc = None \<or> json_data cached_doc = Some [])
   \<and> chat_log (snd (get_metadata json_env 2 final_assignment_fields sample_world))
        = [metadata_messages json_env [] final_assignment_fields]
   \<and> fst (get_metadata json_env 2 final_assignment_fields sample_world) = Inr (PyJson ''{}'')"
proof -
  have h1: "find_one 2 (store sample_world) = Some cached_doc"
    by (simp add: sample_defs find_one_def)
  have h2: "json_data cached_doc = None \<or> json_data cached_doc = Some []"
    by (simp add: sample_defs)
  have c: "chat_completion json_env 0
             (metadata_messages json_env [] final_assignment_fields) = Some '' {} ''"
    by (simp add: sample_defs)
  have j: "json_loads json_env (strip '' {} '') = Some ''{}''"
    by (simp add: sample_defs strip_def isspace_def)
  have l: "chat_log sample_world = []"
    by (simp add: sample_defs)
  from get_metadata_without_json_data [OF h1 h2, of json_env final_assignment_fields] h1 h2 show ?thesis
    by (simp add: c j l)
qed

text \<open>
  C10. For a document processed on the cached branch whose stored \<^verbatim>\<open>ocr_output\<close> is the one
  of the document read, the stored \<^verbatim>\<open>ocr_output\<close> after \<open>process_document\<close> is the one
  stored before, and the stored document differs from the one before in at most
  \<^verbatim>\<open>status\<close>, \<^verbatim>\<open>json_data\<close>, \<^verbatim>\<open>processed_date\<close>, \<^verbatim>\<open>final_assignment\<close> and
  \<^verbatim>\<open>final_release\<close>.
\<close>

theorem cached_branch_preserves_ocr_output:
  assumes "ocr_output doc = Some pages" and "pages \<noteq> []"
    and "find_one (doc_id doc) (store w) = Some d0" and "ocr_output d0 = ocr_output doc"
  shows "\<exists>d'. find_one (doc_id doc) (store (process_document env doc w)) = Some d'
           \<and> ocr_output d' = ocr_output d0
           \<and> d' = d0\<lparr>status := status d', json_data := json_data d', processed_date := processed_date d',
                      final_assignment := final_assignment d', final_release := final_release d'\<rparr>"
proof -
  from assms(1,2) obtain page rest where pages: "ocr_output doc = Some (page # rest)"
    by (cases pages) auto
  from process_document_outcome [of env doc w] obtain f where
    st: "store (process_document env doc w) = update_one (doc_id doc) f (store w)"
    and f: "f = (\<lambda>d. d\<lparr>status := ''failed''\<rparr>)
        \<or> (\<exists>ex pd. f = (\<lambda>d. d\<lparr>ocr_output := Some ex, json_data := Some pd, status := ''failed''\<rparr>)
              \<and> (case ocr_output doc of Some (page # rest) \<Rightarrow> ex = page # rest | _ \<Rightarrow> True))
        \<or> (\<exists>ex pd t a rl. f = (\<lambda>d. d\<lparr>ocr_output := Some ex, json_data := Some pd, status := ''processed'',
                                      processed_date := Some t, final_release := Some rl, final_assignment := Some a\<rparr>)
              \<and> (case ocr_output doc of Some (page # rest) \<Rightarrow> ex = page # rest | _ \<Rightarrow> True))"
    by blast
  from f have id: "\<And>d. doc_id (f d) = doc_id d" by auto
  from st assms(3) id have found: "find_one (doc_id doc) (store (process_document env doc w)) = Some (f d0)"
    by (simp add: find_one_update_same)
  from f assms(4) pages show ?thesis
    unfolding found by (elim disjE exE conjE) simp_all
qed

theorem cached_branch_preserves_ocr_output_witness:
  "ocr_output cached_doc = Some [[(''0'', ''raw text'')]]
   \<and> [[(''0'', ''raw text'')]] \<noteq> ([] :: page list)
   \<and> find_one (doc_id cached_doc) (store sample_world) = Some cached_doc
   \<and> ocr_output cached_doc = ocr_output cached_doc
   \<and> (\<exists>d'. find_one (doc_id cached_doc) (store (process_document sample_env cached_doc sample_world)) = Some d'
           \<and> ocr_output d' = Some [[(''0'', ''raw text'')]]
           \<and> d' = cached_doc\<lparr>status := status d', json_data := json_data d', processed_date := processed_date d',
                      final_assignment := final_assignment d', final_release := final_release d'\<rparr>)"
proof -
  have h1: "ocr_output cached_doc = Some [[(''0'', ''raw text'')]]"
    by (simp add: sample_defs)
  have h2: "[[(''0'', ''raw text'')]] \<noteq> ([] :: page list)"
    by simp
  have h3: "find_one (doc_id cached_doc) (store sample_world) = Some cached_doc"
    by (simp add: sample_defs find_one_def)
  from cached_branch_preserves_ocr_output [OF h1 h2 h3 refl, of sample_env] h1
  have "\<exists>d'. find_one (doc_id cached_doc) (store (process_document sample_env cached_doc sample_world)) = Some d'
           \<and> ocr_output d' = Some [[(''0'', ''raw text'')]]
           \<and> d' = cached_doc\<lparr>status := status d', json_data := json_data d', processed_date := processed_date d',
                      final_assignment := final_assignment d', final_release := final_release d'\<rparr>"
    by simp
  with h1 h2 h3 show ?thesis
    by blast
qed

end
